theory Spec2Isabelle
  imports Complex_Main
begin

section \<open>Strings of the script\<close>

text \<open>
  The script is \<^verbatim>\<open>src/surge/ip-security.js\<close>. Its string literals are kept as the
  bytes the source file holds (UTF-8): an ASCII literal is written as it is, a CJK
  literal as its bytes. Equality and substring tests on such byte strings agree with the
  same tests on the JavaScript strings, because UTF-8 is self-synchronising.
\<close>

definition lbl_very_clean :: string where
  \<comment> \<open>U+6975 U+5EA6 U+7D14 U+6DE8, then " IP"\<close>
  "lbl_very_clean = [CHR 0xE6, CHR 0xA5, CHR 0xB5, CHR 0xE5, CHR 0xBA, CHR 0xA6,
     CHR 0xE7, CHR 0xB4, CHR 0x94, CHR 0xE6, CHR 0xB7, CHR 0xA8] @ '' IP''"

definition lbl_clean :: string where
  \<comment> \<open>U+7D14 U+6DE8, then " IP"\<close>
  "lbl_clean = [CHR 0xE7, CHR 0xB4, CHR 0x94, CHR 0xE6, CHR 0xB7, CHR 0xA8] @ '' IP''"

definition lbl_normal :: string where
  \<comment> \<open>U+4E00 U+822C, then " IP"\<close>
  "lbl_normal = [CHR 0xE4, CHR 0xB8, CHR 0x80, CHR 0xE8, CHR 0x88, CHR 0xAC] @ '' IP''"

definition lbl_slight :: string where
  \<comment> \<open>U+5FAE U+98A8 U+96AA, then " IP"\<close>
  "lbl_slight = [CHR 0xE5, CHR 0xBE, CHR 0xAE, CHR 0xE9, CHR 0xA2, CHR 0xA8,
     CHR 0xE9, CHR 0x9A, CHR 0xAA] @ '' IP''"

definition lbl_risky :: string where
  \<comment> \<open>U+4E00 U+822C U+98A8 U+96AA, then " IP"\<close>
  "lbl_risky = [CHR 0xE4, CHR 0xB8, CHR 0x80, CHR 0xE8, CHR 0x88, CHR 0xAC,
     CHR 0xE9, CHR 0xA2, CHR 0xA8, CHR 0xE9, CHR 0x9A, CHR 0xAA] @ '' IP''"

definition lbl_extreme :: string where
  \<comment> \<open>U+6975 U+5EA6 U+98A8 U+96AA, then " IP"\<close>
  "lbl_extreme = [CHR 0xE6, CHR 0xA5, CHR 0xB5, CHR 0xE5, CHR 0xBA, CHR 0xA6,
     CHR 0xE9, CHR 0xA2, CHR 0xA8, CHR 0xE9, CHR 0x9A, CHR 0xAA] @ '' IP''"

section \<open>Risk levels (CONFIG.riskLevels, riskText)\<close>

record risk_level =
  max_l :: real
  label :: string
  color :: string

definition riskLevels :: "risk_level list" where
  "riskLevels =
    [\<lparr>max_l = 15, label = lbl_very_clean, color = ''#0D6E3D''\<rparr>,
     \<lparr>max_l = 25, label = lbl_clean, color = ''#2E9F5E''\<rparr>,
     \<lparr>max_l = 40, label = lbl_normal, color = ''#8BC34A''\<rparr>,
     \<lparr>max_l = 50, label = lbl_slight, color = ''#FFC107''\<rparr>,
     \<lparr>max_l = 70, label = lbl_risky, color = ''#FF9800''\<rparr>,
     \<lparr>max_l = 100, label = lbl_extreme, color = ''#F44336''\<rparr>]"

record risk_text =
  rt_label :: string
  rt_color :: string

text \<open>
  \<^verbatim>\<open>CONFIG.riskLevels.find(l => score <= l.max) || CONFIG.riskLevels.at(-1)\<close>:
  the first level that covers the score, the last level when none does. A numeric
  score is a real number here; NaN and the infinities of the floating-point type
  are outside this model.
\<close>

definition riskText :: "real \<Rightarrow> risk_text" where
  "riskText score =
     (let level = (case find (\<lambda>l. score \<le> max_l l) riskLevels of
                     Some l \<Rightarrow> l
                   | None \<Rightarrow> last riskLevels)
      in \<lparr>rt_label = label level, rt_color = color level\<rparr>)"

section \<open>The one-shot completion guard (finished, done)\<close>

text \<open>
  \<^verbatim>\<open>let finished = false; function done(o) { if (finished) return; finished = true; $done(o); }\<close>
  The state is the flag and the list of arguments \<^verbatim>\<open>$done\<close> has been invoked with,
  oldest first.
\<close>

record 'o completion =
  finished :: bool
  emitted :: "'o list"

definition completion_init :: "'o completion" where
  "completion_init = \<lparr>finished = False, emitted = []\<rparr>"

definition done_call :: "'o \<Rightarrow> 'o completion \<Rightarrow> 'o completion" where
  "done_call o1 st =
     (if finished st then st
      else st\<lparr>finished := True, emitted := emitted st @ [o1]\<rparr>)"

text \<open>A run is the sequence of calls to done, in the order they happen.\<close>

fun done_calls :: "'o list \<Rightarrow> 'o completion \<Rightarrow> 'o completion" where
  "done_calls [] st = st"
| "done_calls (o1 # os) st = done_calls os (done_call o1 st)"

section \<open>JavaScript values\<close>

text \<open>
  What \<^verbatim>\<open>JSON.parse\<close> can return, and \<^verbatim>\<open>undefined\<close>. An object is its list of
  own properties; the first binding of a key is the property. A finite number is a
  real, with -0 taken as 0: the two are equal under \<^verbatim>\<open>===\<close>, equally falsy, print
  alike, and are written alike by \<^verbatim>\<open>JSON.stringify\<close>, so that nothing the script does
  tells them apart. The two infinities, which \<^verbatim>\<open>JSON.parse\<close> returns for a literal
  too large for a double (\<^verbatim>\<open>1e400\<close>), are values of their own. NaN is left out: no
  parse returns it and the script computes no number but \<^verbatim>\<open>Number\<close> of a string of
  digits.
\<close>

datatype jsval =
    JUndefined
  | JNull
  | JBool bool
  | JNum real
  | JInfinity
  | JNegInfinity
  | JStr string
  | JArr "jsval list"
  | JObj "(string \<times> jsval) list"

datatype error = TypeError

text \<open>ToBoolean, as used by \<^verbatim>\<open>if (v)\<close>, \<^verbatim>\<open>!v\<close>, \<^verbatim>\<open>a && b\<close> and \<^verbatim>\<open>a || b\<close>.\<close>

fun truthy :: "jsval \<Rightarrow> bool" where
  "truthy JUndefined = False"
| "truthy JNull = False"
| "truthy (JBool b) = b"
| "truthy (JNum x) = (x \<noteq> 0)"
| "truthy JInfinity = True"
| "truthy JNegInfinity = True"
| "truthy (JStr s) = (s \<noteq> [])"
| "truthy (JArr xs) = True"
| "truthy (JObj kvs) = True"

text \<open>\<^verbatim>\<open>v || null\<close>\<close>

definition or_null :: "jsval \<Rightarrow> jsval" where
  "or_null v = (if truthy v then v else JNull)"

definition is_digit :: "char \<Rightarrow> bool" where
  "is_digit c = (48 \<le> (of_char c :: nat) \<and> (of_char c :: nat) \<le> 57)"

definition digit_val :: "char \<Rightarrow> nat" where
  "digit_val c = of_char c - 48"

text \<open>\<^verbatim>\<open>Number(ds)\<close> on a string of decimal digits.\<close>

definition digits_value :: "string \<Rightarrow> nat" where
  "digits_value ds = foldl (\<lambda>n c. 10 * n + digit_val c) 0 ds"

text \<open>
  A property key is an array index when it is the canonical decimal form of a number:
  digits only, no leading zero unless it is "0".
\<close>

definition array_index :: "string \<Rightarrow> nat option" where
  "array_index k =
     (if k \<noteq> [] \<and> list_all is_digit k \<and> (hd k \<noteq> CHR ''0'' \<or> length k = 1)
      then Some (digits_value k) else None)"

text \<open>
  \<^verbatim>\<open>v[k]\<close> for a value that is neither null nor undefined. A key an object does not
  own reads as undefined: the script reads the fixed keys ip, score, source, success,
  fraud_score, risk, isResidential, isBroadcast, data, addr, inIP, outIP and outIP6,
  none of which is inherited, and the one computed key (the address, in
  \<^verbatim>\<open>proxyData?.[ip]?.risk\<close>) is followed by a read of risk, which no inherited
  value has. The length of a string is counted in bytes here.
\<close>

fun get_prop :: "jsval \<Rightarrow> string \<Rightarrow> jsval" where
  "get_prop (JObj kvs) k = (case map_of kvs k of Some v \<Rightarrow> v | None \<Rightarrow> JUndefined)"
| "get_prop (JArr xs) k =
     (if k = ''length'' then JNum (real (length xs))
      else (case array_index k of
              Some i \<Rightarrow> if i < length xs then xs ! i else JUndefined
            | None \<Rightarrow> JUndefined))"
| "get_prop (JStr s) k =
     (if k = ''length'' then JNum (real (length s))
      else (case array_index k of
              Some i \<Rightarrow> if i < length s then JStr [s ! i] else JUndefined
            | None \<Rightarrow> JUndefined))"
| "get_prop v k = JUndefined"

text \<open>\<^verbatim>\<open>v?.k\<close> and \<^verbatim>\<open>v?.[k]\<close>: undefined when v is null or undefined.\<close>

definition opt_prop :: "jsval \<Rightarrow> string \<Rightarrow> jsval" where
  "opt_prop v k = (if v = JUndefined \<or> v = JNull then JUndefined else get_prop v k)"

text \<open>\<^verbatim>\<open>v.k\<close>: a TypeError when v is null or undefined.\<close>

definition dot_prop :: "jsval \<Rightarrow> string \<Rightarrow> error + jsval" where
  "dot_prop v k = (if v = JUndefined \<or> v = JNull then Inl TypeError else Inr (get_prop v k))"

definition is_primitive :: "jsval \<Rightarrow> bool" where
  "is_primitive v = (case v of JArr xs \<Rightarrow> False | JObj kvs \<Rightarrow> False | _ \<Rightarrow> True)"

text \<open>
  \<^verbatim>\<open>a === b\<close> where b has just been read out of a freshly parsed value: primitives are
  compared by value, and an array or an object is a new one, identical to nothing
  that existed before the parse.
\<close>

definition strict_eq_fresh :: "jsval \<Rightarrow> jsval \<Rightarrow> bool" where
  "strict_eq_fresh a b = (is_primitive a \<and> a = b)"

text \<open>
  The conversion to a string that \<^verbatim>\<open>"text" + v\<close> makes succeeds. Every primitive
  converts. An object converts through the \<^verbatim>\<open>toString\<close> it inherits, unless it has a
  property \<^verbatim>\<open>toString\<close> of its own: a parsed value is never a function, the inherited
  \<^verbatim>\<open>valueOf\<close> returns the object, and the conversion ends in a TypeError. An array
  converts by joining its elements, null and undefined as the empty string and the
  others converted in turn.
\<close>

fun convertible :: "jsval \<Rightarrow> bool" and convertible_all :: "jsval list \<Rightarrow> bool" where
  "convertible (JObj kvs) = (map_of kvs ''toString'' = None)"
| "convertible (JArr xs) = convertible_all xs"
| "convertible v = True"
| "convertible_all [] = True"
| "convertible_all (x # xs) = (convertible x \<and> convertible_all xs)"

section \<open>The host: JSON codec, persistent store, network\<close>

text \<open>
  \<^verbatim>\<open>JSON.parse\<close> and \<^verbatim>\<open>JSON.stringify\<close> belong to the JavaScript runtime, not to the
  script; they are parameters of the model. \<open>JSON_parse\<close> is \<open>None\<close> where the runtime
  throws a SyntaxError.
\<close>

record codec =
  JSON_parse :: "string \<Rightarrow> jsval option"
  JSON_stringify :: "jsval \<Rightarrow> string"

text \<open>\<^verbatim>\<open>JSON.stringify\<close> leaves out the properties whose value is undefined.\<close>

fun omit_undefined :: "jsval \<Rightarrow> jsval" where
  "omit_undefined (JObj kvs) = JObj (filter (\<lambda>kv. snd kv \<noteq> JUndefined) kvs)"
| "omit_undefined v = v"

text \<open>
  What the runtime guarantees for a value the script persists, when no number in it
  is infinite: the text is not empty and parses back to the value.
\<close>

definition roundtrips :: "codec \<Rightarrow> jsval \<Rightarrow> bool" where
  "roundtrips J v =
     (JSON_stringify J v \<noteq> [] \<and> JSON_parse J (JSON_stringify J v) = Some (omit_undefined v))"

text \<open>
  What \<^verbatim>\<open>JSON.parse(JSON.stringify(v))\<close> is, for any object or array v:
  \<^verbatim>\<open>JSON.stringify\<close> writes an infinite number as \<^verbatim>\<open>null\<close>, an undefined array
  element as \<^verbatim>\<open>null\<close>, and leaves out a property whose value is undefined.
\<close>

fun json_image :: "jsval \<Rightarrow> jsval"
  and image_elems :: "jsval list \<Rightarrow> jsval list"
  and image_props :: "(string \<times> jsval) list \<Rightarrow> (string \<times> jsval) list" where
  "json_image JInfinity = JNull"
| "json_image JNegInfinity = JNull"
| "json_image (JArr xs) = JArr (image_elems xs)"
| "json_image (JObj kvs) = JObj (image_props kvs)"
| "json_image v = v"
| "image_elems [] = []"
| "image_elems (x # xs) = (if x = JUndefined then JNull else json_image x) # image_elems xs"
| "image_props [] = []"
| "image_props (kv # kvs) =
     (if snd kv = JUndefined then image_props kvs
      else (fst kv, json_image (snd kv)) # image_props kvs)"

text \<open>The runtime's contract for a value the script persists, whatever numbers it holds.\<close>

definition reads_back :: "codec \<Rightarrow> jsval \<Rightarrow> bool" where
  "reads_back J v =
     (JSON_stringify J v \<noteq> [] \<and> JSON_parse J (JSON_stringify J v) = Some (json_image v))"

text \<open>
  The effects a function of the script has on the host, in the order it performs them:
  HTTP requests (URL and routing policy), writes to the persistent store (key and
  value), queries of the recent-request log, and timed waits (milliseconds).
  What \<^verbatim>\<open>console.log\<close> prints is diagnostic output and is not recorded. Building
  its argument converts values to strings, which can throw; where the script logs a
  value taken from a payload, the functions below have the throw. The other logs print
  literals and strings only.
\<close>

datatype event =
    HttpGet string "string option"
  | StoreWrite string string
  | RecentQuery
  | Wait nat

record host =
  store :: "string \<rightharpoonup> string"
  trace :: "event list"

definition emit :: "event \<Rightarrow> host \<Rightarrow> host" where
  "emit e h = h\<lparr>trace := trace h @ [e]\<rparr>"

text \<open>\<^verbatim>\<open>$persistentStore.read(key)\<close>: the stored string, or null (\<open>None\<close>).\<close>

definition store_read :: "string \<Rightarrow> host \<Rightarrow> string option" where
  "store_read key h = store h key"

text \<open>\<^verbatim>\<open>$persistentStore.write(value, key)\<close>\<close>

definition store_write :: "string \<Rightarrow> string \<Rightarrow> host \<Rightarrow> host" where
  "store_write val key h = emit (StoreWrite key val) (h\<lparr>store := (store h)(key \<mapsto> val)\<rparr>)"

definition key_lastEvent :: string where "key_lastEvent = ''lastNetworkInfoEvent''"
definition key_lastPolicy :: string where "key_lastPolicy = ''lastProxyPolicy''"
definition key_riskCache :: string where "key_riskCache = ''riskScoreCache''"

definition policyRetryDelay :: nat where "policyRetryDelay = 500"

definition url_inboundIP :: string where
  "url_inboundIP = ''https://api.bilibili.com/x/web-interface/zone''"
definition url_outboundIP :: string where
  "url_outboundIP = ''https://api-ipv4.ip.sb/geoip''"
definition url_outboundIPv6 :: string where
  "url_outboundIPv6 = ''https://api-ipv6.ip.sb/geoip''"
definition url_ipType :: string where
  "url_ipType = ''https://my.ippure.com/v1/info''"
definition url_ipTypeCard :: string where
  "url_ipTypeCard = ''https://my.ippure.com/v1/card''"
definition url_ipqs :: "string \<Rightarrow> string \<Rightarrow> string" where
  "url_ipqs key ip = ''https://ipqualityscore.com/api/json/ip/'' @ key @ ''/'' @ ip @ ''?strictness=1''"
definition url_proxyCheck :: "string \<Rightarrow> string" where
  "url_proxyCheck ip = ''https://proxycheck.io/v2/'' @ ip @ ''?risk=1&vpn=1''"
definition url_scamalytics :: "string \<Rightarrow> string" where
  "url_scamalytics ip = ''https://scamalytics.com/ip/'' @ ip"

text \<open>
  The network is the body each URL answers with, \<open>None\<close> when the request fails and the
  callback gets no data.

  \<^verbatim>\<open>httpJSON\<close>: \<^verbatim>\<open>try { r(JSON.parse(d)); } catch { r(null); }\<close>. The promise
  resolves to \<open>json_body\<close>.
\<close>

definition json_body :: "codec \<Rightarrow> (string \<Rightarrow> string option) \<Rightarrow> string \<Rightarrow> jsval" where
  "json_body J net url =
     (case net url of
        None \<Rightarrow> JNull
      | Some d \<Rightarrow> (case JSON_parse J d of Some v \<Rightarrow> v | None \<Rightarrow> JNull))"

definition httpJSON ::
  "codec \<Rightarrow> (string \<Rightarrow> string option) \<Rightarrow> string \<Rightarrow> string option \<Rightarrow> host \<Rightarrow> jsval \<times> host" where
  "httpJSON J net url policy h = (json_body J net url, emit (HttpGet url policy) h)"

text \<open>\<^verbatim>\<open>httpRaw\<close>: \<^verbatim>\<open>r(d || null)\<close>; null is \<open>None\<close>.\<close>

definition raw_body :: "(string \<Rightarrow> string option) \<Rightarrow> string \<Rightarrow> string option" where
  "raw_body net url = (case net url of None \<Rightarrow> None | Some d \<Rightarrow> if d = [] then None else Some d)"

definition httpRaw :: "(string \<Rightarrow> string option) \<Rightarrow> string \<Rightarrow> host \<Rightarrow> string option \<times> host" where
  "httpRaw net url h = (raw_body net url, emit (HttpGet url None) h)"

text \<open>\<^verbatim>\<open>wait(ms)\<close>\<close>

definition wait_ms :: "nat \<Rightarrow> host \<Rightarrow> host" where
  "wait_ms ms h = emit (Wait ms) h"

section \<open>Text matching\<close>

text \<open>Case folding of the \<^verbatim>\<open>i\<close> flag on the ASCII letters of the patterns.\<close>

definition lower :: "char \<Rightarrow> char" where
  "lower c =
     (if 65 \<le> (of_char c :: nat) \<and> (of_char c :: nat) \<le> 90
      then char_of (of_char c + 32 :: nat) else c)"

fun starts_with :: "string \<Rightarrow> string \<Rightarrow> bool" where
  "starts_with s [] = True"
| "starts_with [] (p # ps) = False"
| "starts_with (c # cs) (p # ps) = (c = p \<and> starts_with cs ps)"

text \<open>A literal occurs somewhere in the text: what an unanchored regular expression of one literal tests.\<close>

fun contains :: "string \<Rightarrow> string \<Rightarrow> bool" where
  "contains [] p = (p = [])"
| "contains (c # cs) p = (starts_with (c # cs) p \<or> contains cs p)"

text \<open>
  \<^verbatim>\<open>/Fraud Score[^0-9]*([0-9]{1,3})/i\<close>, the capture group of the leftmost match:
  at the first place where the literal matches and a digit follows after any run of
  non-digits, up to three digits, as many as there are.
\<close>

fun fraud_score_match :: "string \<Rightarrow> string option" where
  "fraud_score_match [] = None"
| "fraud_score_match (c # cs) =
     (if starts_with (map lower (c # cs)) ''fraud score''
      then (let rest = dropWhile (\<lambda>d. \<not> is_digit d) (drop 11 (c # cs))
            in if rest = [] then fraud_score_match cs
               else Some (take 3 (takeWhile is_digit rest)))
      else fraud_score_match cs)"

text \<open>
  \<^verbatim>\<open>parseScamalyticsScore\<close>: \<^verbatim>\<open>const m = html?.match(...); return m ? Number(m[1]) : null;\<close>
\<close>

definition parseScamalyticsScore :: "string option \<Rightarrow> nat option" where
  "parseScamalyticsScore html =
     (case html of
        None \<Rightarrow> None
      | Some s \<Rightarrow> (case fraud_score_match s of
                     None \<Rightarrow> None
                   | Some ds \<Rightarrow> Some (digits_value ds)))"

section \<open>Policy discovery (findPolicyInRecent, getPolicy)\<close>

text \<open>
  One entry of the host's recent-request log. The log is the host's own interface:
  an array of request objects, newest first, each with a URL string and, when a
  policy handled it, a policy name.
\<close>

record request =
  URL :: string
  policyName :: "string option"

text \<open>\<^verbatim>\<open>/(api(-ipv4)?\.ip\.sb|ipinfo\.io)/i.test(url)\<close>\<close>

definition policy_pattern :: "string \<Rightarrow> bool" where
  "policy_pattern url =
     (let u = map lower url
      in contains u ''api.ip.sb'' \<or> contains u ''api-ipv4.ip.sb'' \<or> contains u ''ipinfo.io'')"

text \<open>
  \<^verbatim>\<open>res?.requests?.slice(0, limit).find(i => pattern.test(i.URL))\<close>, then
  \<^verbatim>\<open>hit?.policyName || null\<close>. The argument \<open>res\<close> is what the host answers to this
  query: \<open>None\<close> when there is no request list.
\<close>

definition search_recent :: "request list option \<Rightarrow> nat \<Rightarrow> string option" where
  "search_recent res limit =
     (case res of
        None \<Rightarrow> None
      | Some requests \<Rightarrow>
          (case find (\<lambda>i. policy_pattern (URL i)) (take limit requests) of
             None \<Rightarrow> None
           | Some hit \<Rightarrow>
               (case policyName hit of
                  None \<Rightarrow> None
                | Some p \<Rightarrow> if p \<noteq> [] then Some p else None)))"

definition findPolicyInRecent :: "request list option \<Rightarrow> nat \<Rightarrow> host \<Rightarrow> string option \<times> host" where
  "findPolicyInRecent res limit h = (search_recent res limit, emit RecentQuery h)"

text \<open>
  \<^verbatim>\<open>getPolicy\<close>; \<open>res1\<close> and \<open>res2\<close> are the host's answers to the first and to the
  second query of the log.
\<close>

definition getPolicy :: "request list option \<Rightarrow> request list option \<Rightarrow> host \<Rightarrow> string \<times> host" where
  "getPolicy res1 res2 h =
     (let (policy, h1) = findPolicyInRecent res1 10 h
      in case policy of
           Some p \<Rightarrow> (p, store_write p key_lastPolicy h1)
         | None \<Rightarrow>
             (let h2 = wait_ms policyRetryDelay h1;
                  (policy2, h3) = findPolicyInRecent res2 5 h2
              in case policy2 of
                   Some p \<Rightarrow> (p, store_write p key_lastPolicy h3)
                 | None \<Rightarrow>
                     (case store_read key_lastPolicy h3 of
                        Some lastPolicy \<Rightarrow>
                          if lastPolicy \<noteq> [] then (lastPolicy, h3) else (''Unknown'', h3)
                      | None \<Rightarrow> (''Unknown'', h3))))"

section \<open>Risk score (getRiskScore)\<close>

record risk_info =
  score :: jsval
  source :: jsval

text \<open>
  Step 0 of \<^verbatim>\<open>getRiskScore\<close>: the cached entry, when the store holds a non-empty
  string that parses to a value whose ip is the address. Everything from the parse to
  the \<^verbatim>\<open>return\<close> is inside the \<^verbatim>\<open>try\<close>, and the \<^verbatim>\<open>catch\<close> is empty: a SyntaxError
  of the parse, the TypeError of reading ip from null, and a TypeError of the log
  \<^verbatim>\<open>"..." + c.score + "% (" + c.source + ")"\<close> all end in a miss.
\<close>

definition cache_lookup :: "codec \<Rightarrow> string \<Rightarrow> host \<Rightarrow> risk_info option" where
  "cache_lookup J ip h =
     (case store_read key_riskCache h of
        None \<Rightarrow> None
      | Some cached \<Rightarrow>
          if cached = [] then None
          else (case JSON_parse J cached of
                  None \<Rightarrow> None
                | Some c \<Rightarrow>
                    (case dot_prop c ''ip'' of
                       Inl e \<Rightarrow> None
                     | Inr cip \<Rightarrow>
                         if cip = JStr ip
                         then (if convertible (get_prop c ''score'')
                                  \<and> convertible (get_prop c ''source'')
                               then Some \<lparr>score = get_prop c ''score'',
                                          source = get_prop c ''source''\<rparr>
                               else None)
                         else None)))"

text \<open>The object \<^verbatim>\<open>{ ip, score, source }\<close> that \<^verbatim>\<open>saveAndReturn\<close> persists.\<close>

definition cache_entry :: "string \<Rightarrow> jsval \<Rightarrow> string \<Rightarrow> jsval" where
  "cache_entry ip sc src = JObj [(''ip'', JStr ip), (''score'', sc), (''source'', JStr src)]"

text \<open>
  \<^verbatim>\<open>saveAndReturn(score, source)\<close>: the write, then the log
  \<^verbatim>\<open>"..." + score + "% (" + source + ")"\<close>, then the return. The source is a literal;
  a score that does not convert makes the log throw, after the write and outside any
  \<^verbatim>\<open>try\<close>.
\<close>

definition saveAndReturn ::
  "codec \<Rightarrow> string \<Rightarrow> jsval \<Rightarrow> string \<Rightarrow> host \<Rightarrow> (error + risk_info) \<times> host" where
  "saveAndReturn J ip sc src h =
     (let h' = store_write (JSON_stringify J (cache_entry ip sc src)) key_riskCache h
      in if convertible sc then (Inr \<lparr>score = sc, source = JStr src\<rparr>, h')
         else (Inl TypeError, h'))"

text \<open>
  Steps 2 and 3: both requests are sent before either answer is looked at
  (\<^verbatim>\<open>Promise.all\<close>); ProxyCheck is looked at first. The log of a ProxyCheck failure
  prints \<^verbatim>\<open>JSON.stringify(proxyData).slice(0, 100)\<close> and the log of a Scamalytics
  failure a literal; neither throws.
\<close>

definition risk_fallback ::
  "codec \<Rightarrow> (string \<Rightarrow> string option) \<Rightarrow> string \<Rightarrow> host \<Rightarrow> (error + risk_info) \<times> host" where
  "risk_fallback J net ip h =
     (let (proxyData, h1) = httpJSON J net (url_proxyCheck ip) None h;
          (scamHtml, h2) = httpRaw net (url_scamalytics ip) h1
      in if opt_prop (opt_prop proxyData ip) ''risk'' \<noteq> JUndefined
         then saveAndReturn J ip (get_prop (get_prop proxyData ip) ''risk'') ''ProxyCheck'' h2
         else (case parseScamalyticsScore scamHtml of
                 Some n \<Rightarrow> saveAndReturn J ip (JNum (real n)) ''Scamalytics'' h2
               | None \<Rightarrow> saveAndReturn J ip (JNum 50) ''Default'' h2))"

text \<open>
  The log of an IPQS answer without a score,
  \<^verbatim>\<open>data ? "success=" + data.success + " message=" + (data.message || "") : "..."\<close>,
  does not throw.
\<close>

definition ipqs_log_ok :: "jsval \<Rightarrow> bool" where
  "ipqs_log_ok data =
     (if truthy data
      then convertible (get_prop data ''success'')
           \<and> convertible (if truthy (get_prop data ''message'')
                           then get_prop data ''message'' else JStr [])
      else True)"

text \<open>
  \<^verbatim>\<open>getRiskScore(ip)\<close>; \<open>ipqsKey\<close> is \<^verbatim>\<open>args.ipqsKey\<close>, the empty string when no
  credential is configured. The result is the returned object, or the error that
  escapes; the host is as the call left it either way.
\<close>

definition getRiskScore ::
  "codec \<Rightarrow> string \<Rightarrow> (string \<Rightarrow> string option) \<Rightarrow> string \<Rightarrow> host
     \<Rightarrow> (error + risk_info) \<times> host" where
  "getRiskScore J ipqsKey net ip h =
     (case cache_lookup J ip h of
        Some r \<Rightarrow> (Inr r, h)
      | None \<Rightarrow>
          if ipqsKey \<noteq> []
          then (let (data, h1) = httpJSON J net (url_ipqs ipqsKey ip) None h
                in if truthy (opt_prop data ''success'') \<and> opt_prop data ''fraud_score'' \<noteq> JUndefined
                   then saveAndReturn J ip (get_prop data ''fraud_score'') ''IPQS'' h1
                   else if ipqs_log_ok data then risk_fallback J net ip h1
                   else (Inl TypeError, h1))
          else risk_fallback J net ip h)"

section \<open>IP type (getIPType)\<close>

definition txt_residential :: string where
  \<comment> \<open>U+4F4F U+5B85, then " IP"\<close>
  "txt_residential = [CHR 0xE4, CHR 0xBD, CHR 0x8F, CHR 0xE5, CHR 0xAE, CHR 0x85] @ '' IP''"

definition txt_datacenter :: string where
  \<comment> \<open>U+6A5F U+623F, then " IP"\<close>
  "txt_datacenter = [CHR 0xE6, CHR 0xA9, CHR 0x9F, CHR 0xE6, CHR 0x88, CHR 0xBF] @ '' IP''"

definition txt_broadcast :: string where
  \<comment> \<open>U+5EE3 U+64AD, then " IP"\<close>
  "txt_broadcast = [CHR 0xE5, CHR 0xBB, CHR 0xA3, CHR 0xE6, CHR 0x92, CHR 0xAD] @ '' IP''"

definition txt_native :: string where
  \<comment> \<open>U+539F U+751F, then " IP"\<close>
  "txt_native = [CHR 0xE5, CHR 0x8E, CHR 0x9F, CHR 0xE7, CHR 0x94, CHR 0x9F] @ '' IP''"

definition txt_unknown :: string where
  \<comment> \<open>U+672A U+77E5\<close>
  "txt_unknown = [CHR 0xE6, CHR 0x9C, CHR 0xAA, CHR 0xE7, CHR 0x9F, CHR 0xA5]"

definition word_residential :: string where
  \<comment> \<open>U+4F4F U+5B85\<close>
  "word_residential = [CHR 0xE4, CHR 0xBD, CHR 0x8F, CHR 0xE5, CHR 0xAE, CHR 0x85]"

definition word_broadcast :: string where
  \<comment> \<open>U+5EE3 U+64AD\<close>
  "word_broadcast = [CHR 0xE5, CHR 0xBB, CHR 0xA3, CHR 0xE6, CHR 0x92, CHR 0xAD]"

record ip_type =
  ipType :: string
  ipSrc :: string

text \<open>\<^verbatim>\<open>/<residential>|[Rr]esidential/.test(html)\<close>\<close>

definition looks_residential :: "string \<Rightarrow> bool" where
  "looks_residential html =
     (contains html word_residential \<or> contains html ''Residential'' \<or> contains html ''residential'')"

text \<open>\<^verbatim>\<open>/<broadcast>|[Bb]roadcast|[Aa]nnounced/.test(html)\<close>\<close>

definition looks_broadcast :: "string \<Rightarrow> bool" where
  "looks_broadcast html =
     (contains html word_broadcast \<or> contains html ''Broadcast'' \<or> contains html ''broadcast''
      \<or> contains html ''Announced'' \<or> contains html ''announced'')"

definition getIPType :: "codec \<Rightarrow> (string \<Rightarrow> string option) \<Rightarrow> host \<Rightarrow> ip_type \<times> host" where
  "getIPType J net h =
     (let (info, h1) = httpJSON J net url_ipType None h
      in if truthy info \<and> get_prop info ''isResidential'' \<noteq> JUndefined
         then (\<lparr>ipType = (if truthy (get_prop info ''isResidential'')
                           then txt_residential else txt_datacenter),
                ipSrc = (if truthy (get_prop info ''isBroadcast'')
                          then txt_broadcast else txt_native)\<rparr>, h1)
         else (let (html, h2) = httpRaw net url_ipTypeCard h1
               in case html of
                    Some s \<Rightarrow>
                      (\<lparr>ipType = (if looks_residential s then txt_residential else txt_datacenter),
                        ipSrc = (if looks_broadcast s then txt_broadcast else txt_native)\<rparr>, h2)
                  | None \<Rightarrow> (\<lparr>ipType = txt_unknown, ipSrc = txt_unknown\<rparr>, h2)))"

section \<open>IP acquisition (fetchIPs)\<close>

record ips =
  inIP :: jsval
  outIP :: jsval
  outIPv6 :: jsval
  inRaw :: jsval
  outRaw :: jsval
  v6Raw :: jsval

text \<open>
  \<^verbatim>\<open>v6ip.includes(":")\<close> on a truthy value: a string has the method, an array has one
  too (membership), anything else has none and the call is a TypeError.
\<close>

definition includes_colon :: "jsval \<Rightarrow> error + bool" where
  "includes_colon v =
     (case v of
        JStr s \<Rightarrow> Inr (CHR '':'' \<in> set s)
      | JArr xs \<Rightarrow> Inr (JStr '':'' \<in> set xs)
      | _ \<Rightarrow> Inl TypeError)"

text \<open>
  \<^verbatim>\<open>fetchIPs\<close>. The three requests are sent together; \<open>v6TimedOut\<close> says that the
  timer of \<^verbatim>\<open>Promise.race\<close> won against the v6 request, which then counts as null.
\<close>

definition fetchIPs ::
  "codec \<Rightarrow> (string \<Rightarrow> string option) \<Rightarrow> bool \<Rightarrow> host \<Rightarrow> (error + ips) \<times> host" where
  "fetchIPs J net v6TimedOut h =
     (let (enter, h1) = httpJSON J net url_inboundIP (Some ''DIRECT'') h;
          (exit, h2) = httpJSON J net url_outboundIP None h1;
          (answer6, h3) = httpJSON J net url_outboundIPv6 None h2;
          exit6 = (if v6TimedOut then JNull else answer6);
          v6ip = opt_prop exit6 ''ip'';
          hasIPv6 = (if truthy v6ip then includes_colon v6ip else Inr False)
      in case hasIPv6 of
           Inl e \<Rightarrow> (Inl e, h3)
         | Inr has \<Rightarrow>
             (Inr \<lparr>inIP = or_null (opt_prop (opt_prop enter ''data'') ''addr''),
                   outIP = or_null (opt_prop exit ''ip''),
                   outIPv6 = (if has then v6ip else JNull),
                   inRaw = enter,
                   outRaw = exit,
                   v6Raw = (if has then exit6 else JNull)\<rparr>, h3))"

section \<open>Change detection (checkIPChange)\<close>

text \<open>The object \<^verbatim>\<open>{ inIP, outIP, outIP6: outIPv6 }\<close> that is persisted.\<close>

definition snapshot :: "jsval \<Rightarrow> jsval \<Rightarrow> jsval \<Rightarrow> jsval" where
  "snapshot a b c = JObj [(''inIP'', a), (''outIP'', b), (''outIP6'', c)]"

text \<open>
  \<^verbatim>\<open>let lastData = {}; if (lastEvent) { try { lastData = JSON.parse(lastEvent); } catch (e) {} }\<close>
\<close>

definition last_data :: "codec \<Rightarrow> host \<Rightarrow> jsval" where
  "last_data J h =
     (case store_read key_lastEvent h of
        None \<Rightarrow> JObj []
      | Some lastEvent \<Rightarrow>
          if lastEvent = [] then JObj []
          else (case JSON_parse J lastEvent of Some v \<Rightarrow> v | None \<Rightarrow> JObj []))"

text \<open>
  \<^verbatim>\<open>checkIPChange\<close>; \<open>isEvent\<close> is \<^verbatim>\<open>args.isEvent\<close>. The reads of \<^verbatim>\<open>lastData.inIP\<close>
  and the others are outside the \<^verbatim>\<open>try\<close>: on a null \<open>lastData\<close> the first of them throws.
\<close>

definition checkIPChange ::
  "codec \<Rightarrow> bool \<Rightarrow> jsval \<Rightarrow> jsval \<Rightarrow> jsval \<Rightarrow> host \<Rightarrow> error + (bool \<times> host)" where
  "checkIPChange J isEvent inIP' outIP' outIPv6' h =
     (if \<not> isEvent then Inr (True, h)
      else (let lastData = last_data J h
            in case dot_prop lastData ''inIP'' of
                 Inl e \<Rightarrow> Inl e
               | Inr lastIn \<Rightarrow>
                   if strict_eq_fresh inIP' lastIn
                      \<and> strict_eq_fresh outIP' (get_prop lastData ''outIP'')
                      \<and> strict_eq_fresh outIPv6' (get_prop lastData ''outIP6'')
                   then Inr (False, h)
                   else Inr (True, store_write (JSON_stringify J (snapshot inIP' outIP' outIPv6')) key_lastEvent h)))"

section \<open>The outbound section of the panel (buildOutboundSection)\<close>

text \<open>
  The canonical geo record has string fields that may be missing. A field is a string,
  null or undefined; on such values \<^verbatim>\<open>===\<close> is equality.
\<close>

datatype 'a nullable = Undefined | Null | Val 'a

record geo =
  country_code :: "string nullable"
  country_name :: "string nullable"
  city :: "string nullable"
  region :: "string nullable"
  org :: "string nullable"

text \<open>\<^verbatim>\<open>info?.field\<close>; a missing record (null) is \<open>None\<close>.\<close>

definition fld :: "geo option \<Rightarrow> (geo \<Rightarrow> string nullable) \<Rightarrow> string nullable" where
  "fld info f = (case info of None \<Rightarrow> Undefined | Some g \<Rightarrow> f g)"

fun truthy_s :: "string nullable \<Rightarrow> bool" where
  "truthy_s (Val s) = (s \<noteq> [])"
| "truthy_s v = False"

text \<open>\<^verbatim>\<open>v || "Unknown"\<close> and the like.\<close>

definition or_text :: "string nullable \<Rightarrow> string \<Rightarrow> string" where
  "or_text v d = (case v of Val s \<Rightarrow> if s \<noteq> [] then s else d | _ \<Rightarrow> d)"

section \<open>The presentation helpers\<close>

definition upper :: "char \<Rightarrow> char" where
  "upper c =
     (if 97 \<le> (of_char c :: nat) \<and> (of_char c :: nat) \<le> 122
      then char_of (of_char c - 32 :: nat) else c)"

text \<open>\<^verbatim>\<open>String.fromCodePoint(n)\<close>, as the bytes of the character.\<close>

definition fromCodePoint :: "nat \<Rightarrow> string" where
  "fromCodePoint n =
     (if n < 128 then [char_of n]
      else if n < 2048 then [char_of (192 + n div 64), char_of (128 + n mod 64)]
      else if n < 65536 then
        [char_of (224 + n div 4096), char_of (128 + (n div 64) mod 64), char_of (128 + n mod 64)]
      else
        [char_of (240 + n div 262144), char_of (128 + (n div 4096) mod 64),
         char_of (128 + (n div 64) mod 64), char_of (128 + n mod 64)])"

text \<open>
  \<^verbatim>\<open>flag(cc)\<close>. Length and character codes are those of the bytes, which are the
  script's on an ASCII country code.
\<close>

definition flag :: "string nullable \<Rightarrow> string" where
  "flag cc =
     (case cc of
        Val s \<Rightarrow>
          if s = [] \<or> length s \<noteq> 2 then []
          else (let s' = (if map upper s = ''TW'' then ''CN'' else s);
                    b = 127462
                in fromCodePoint (b + of_char (s' ! 0) - 65) @ fromCodePoint (b + of_char (s' ! 1) - 65))
      | _ \<Rightarrow> [])"

text \<open>\<^verbatim>\<open>s.split(sep)\<close> for a separator of one character.\<close>

fun js_split :: "char \<Rightarrow> string \<Rightarrow> string list" where
  "js_split sep [] = [[]]"
| "js_split sep (c # cs) =
     (if c = sep then [] # js_split sep cs
      else (case js_split sep cs of
              [] \<Rightarrow> [[c]]
            | p # ps \<Rightarrow> (c # p) # ps))"

text \<open>\<^verbatim>\<open>parts.join(sep)\<close>\<close>

fun js_join :: "string \<Rightarrow> string list \<Rightarrow> string" where
  "js_join sep [] = []"
| "js_join sep [x] = x"
| "js_join sep (x # y # ys) = x @ sep @ js_join sep (y # ys)"

text \<open>\<^verbatim>\<open>maskIP(ip)\<close> on a string.\<close>

definition maskIP :: "string \<Rightarrow> string" where
  "maskIP ip =
     (if ip = [] then ip
      else if CHR '':'' \<in> set ip then
        (let parts = js_split (CHR '':'') ip
         in if length parts \<le> 2 then ip
            else hd parts @ '':'' @ js_join '':'' (map (\<lambda>p. ''*'') (butlast (tl parts)))
                 @ '':'' @ last parts)
      else
        (let parts = js_split (CHR ''.'') ip
         in if length parts \<noteq> 4 then ip
            else parts ! 0 @ ''.*.*.'' @ parts ! 3))"

text \<open>\<^verbatim>\<open>formatGeo(countryCode, ...parts)\<close>\<close>

definition formatGeo :: "string nullable \<Rightarrow> string nullable list \<Rightarrow> string" where
  "formatGeo countryCode parts =
     flag countryCode @ '' '' @ js_join '', '' (map (\<lambda>p. or_text p []) (filter truthy_s parts))"

definition p_out :: string where
  \<comment> \<open>U+51FA U+53E3 " IP" U+FF1A\<close>
  "p_out = [CHR 0xE5, CHR 0x87, CHR 0xBA, CHR 0xE5, CHR 0x8F, CHR 0xA3] @ '' IP''
           @ [CHR 0xEF, CHR 0xBC, CHR 0x9A]"

definition p_region :: string where
  \<comment> \<open>U+5730 U+5340 U+FF1A\<close>
  "p_region = [CHR 0xE5, CHR 0x9C, CHR 0xB0, CHR 0xE5, CHR 0x8D, CHR 0x80, CHR 0xEF, CHR 0xBC, CHR 0x9A]"

definition p_carrier :: string where
  \<comment> \<open>U+96FB U+4FE1 U+5546 U+FF1A\<close>
  "p_carrier = [CHR 0xE9, CHR 0x9B, CHR 0xBB, CHR 0xE4, CHR 0xBF, CHR 0xA1, CHR 0xE5, CHR 0x95, CHR 0x86,
                CHR 0xEF, CHR 0xBC, CHR 0x9A]"

definition p_out4 :: string where
  \<comment> \<open>U+51FA U+53E3 " IP" U+2074 U+FF1A\<close>
  "p_out4 = [CHR 0xE5, CHR 0x87, CHR 0xBA, CHR 0xE5, CHR 0x8F, CHR 0xA3] @ '' IP''
            @ [CHR 0xE2, CHR 0x81, CHR 0xB4, CHR 0xEF, CHR 0xBC, CHR 0x9A]"

definition p_out6 :: string where
  \<comment> \<open>U+51FA U+53E3 " IP" U+2076 U+FF1A\<close>
  "p_out6 = [CHR 0xE5, CHR 0x87, CHR 0xBA, CHR 0xE5, CHR 0x8F, CHR 0xA3] @ '' IP''
            @ [CHR 0xE2, CHR 0x81, CHR 0xB6, CHR 0xEF, CHR 0xBC, CHR 0x9A]"

definition p_region4 :: string where
  \<comment> \<open>U+5730 U+5340 U+2074 U+FF1A\<close>
  "p_region4 = [CHR 0xE5, CHR 0x9C, CHR 0xB0, CHR 0xE5, CHR 0x8D, CHR 0x80, CHR 0xE2, CHR 0x81, CHR 0xB4,
                CHR 0xEF, CHR 0xBC, CHR 0x9A]"

definition p_carrier4 :: string where
  \<comment> \<open>U+96FB U+4FE1 U+5546 U+2074 U+FF1A\<close>
  "p_carrier4 = [CHR 0xE9, CHR 0x9B, CHR 0xBB, CHR 0xE4, CHR 0xBF, CHR 0xA1, CHR 0xE5, CHR 0x95, CHR 0x86,
                 CHR 0xE2, CHR 0x81, CHR 0xB4, CHR 0xEF, CHR 0xBC, CHR 0x9A]"

definition p_region6 :: string where
  \<comment> \<open>U+5730 U+5340 U+2076 U+FF1A\<close>
  "p_region6 = [CHR 0xE5, CHR 0x9C, CHR 0xB0, CHR 0xE5, CHR 0x8D, CHR 0x80, CHR 0xE2, CHR 0x81, CHR 0xB6,
                CHR 0xEF, CHR 0xBC, CHR 0x9A]"

definition p_carrier6 :: string where
  \<comment> \<open>U+96FB U+4FE1 U+5546 U+2076 U+FF1A\<close>
  "p_carrier6 = [CHR 0xE9, CHR 0x9B, CHR 0xBB, CHR 0xE4, CHR 0xBF, CHR 0xA1, CHR 0xE5, CHR 0x95, CHR 0x86,
                 CHR 0xE2, CHR 0x81, CHR 0xB6, CHR 0xEF, CHR 0xBC, CHR 0x9A]"

text \<open>
  \<^verbatim>\<open>buildOutboundSection(outIP, outIPv6, outInfo, ipv6Info, isZh, isMask)\<close>.
  The v4 address is a string (the caller returns early without one), the v6 address a
  string or null.
\<close>

definition sameLocation :: "geo option \<Rightarrow> geo option \<Rightarrow> bool" where
  "sameLocation outInfo ipv6Info =
     (fld outInfo country_code = fld ipv6Info country_code \<and> fld outInfo org = fld ipv6Info org)"

definition buildOutboundSection ::
  "string \<Rightarrow> string nullable \<Rightarrow> geo option \<Rightarrow> geo option \<Rightarrow> bool \<Rightarrow> bool \<Rightarrow> string list" where
  "buildOutboundSection out4 out6 outInfo ipv6Info isZh isMask =
     (let ct = (\<lambda>info. if isZh then fld info country_name else fld info country_code);
          m = (\<lambda>ip. if isMask then maskIP ip else ip);
          geo4 = formatGeo (fld outInfo country_code) [fld outInfo city, fld outInfo region, ct outInfo];
          geo6 = formatGeo (fld ipv6Info country_code) [fld ipv6Info city, fld ipv6Info region, ct ipv6Info]
      in if \<not> truthy_s out6 then
           [p_out @ m out4,
            p_region @ geo4,
            p_carrier @ or_text (fld outInfo org) ''Unknown'']
         else if sameLocation outInfo ipv6Info then
           [p_out4 @ m out4,
            p_out6 @ m (or_text out6 []),
            p_region @ geo4,
            p_carrier @ or_text (fld outInfo org) ''Unknown'']
         else
           [p_out4 @ m out4,
            p_region4 @ geo4,
            p_carrier4 @ or_text (fld outInfo org) ''Unknown'',
            [],
            p_out6 @ m (or_text out6 []),
            p_region6 @ geo6,
            p_carrier6 @ or_text (fld ipv6Info org) ''Unknown''])"

text \<open>
  A location block is announced by its region line; every region line starts with
  U+5730 U+5340, and no other line of the section does.
\<close>

definition word_region :: string where
  \<comment> \<open>U+5730 U+5340\<close>
  "word_region = [CHR 0xE5, CHR 0x9C, CHR 0xB0, CHR 0xE5, CHR 0x8D, CHR 0x80]"

definition location_blocks :: "string list \<Rightarrow> nat" where
  "location_blocks ls = length (filter (\<lambda>l. starts_with l word_region) ls)"

section \<open>A small codec for the examples\<close>

text \<open>
  A codec cut down to ten texts. On them, and on the values they stand for, it
  does what \<^verbatim>\<open>JSON.parse\<close> and \<^verbatim>\<open>JSON.stringify\<close> do.
\<close>

definition text_ipqs :: string where
  "text_ipqs = ''{\"ip\":\"2.2.2.2\",\"score\":12,\"source\":\"IPQS\"}''"

definition text_default :: string where
  "text_default = ''{\"ip\":\"2.2.2.2\",\"score\":50,\"source\":\"Default\"}''"

definition text_snapshot :: string where
  "text_snapshot = ''{\"inIP\":\"1.1.1.1\",\"outIP\":\"2.2.2.2\",\"outIP6\":null}''"

definition text_v6_as_v4 :: string where
  "text_v6_as_v4 = ''{\"ip\":\"1.2.3.4\"}''"

definition text_info :: string where
  "text_info = ''{\"isResidential\":false,\"isBroadcast\":true}''"

text \<open>An object with a property \<^verbatim>\<open>toString\<close> of its own, which is not a function.\<close>

definition odd_value :: jsval where
  "odd_value = JObj [(''toString'', JNum 0)]"

definition text_cache_odd :: string where
  "text_cache_odd = ''{\"ip\":\"2.2.2.2\",\"score\":{\"toString\":0},\"source\":\"ProxyCheck\"}''"

definition text_proxy_odd :: string where
  "text_proxy_odd = ''{\"2.2.2.2\":{\"risk\":{\"toString\":0}}}''"

definition text_ipqs_fail :: string where
  "text_ipqs_fail = ''{\"success\":false,\"message\":{\"toString\":0}}''"

definition text_ipqs_inf :: string where
  "text_ipqs_inf = ''{\"success\":true,\"fraud_score\":1e400}''"

definition text_cache_null :: string where
  "text_cache_null = ''{\"ip\":\"2.2.2.2\",\"score\":null,\"source\":\"IPQS\"}''"

definition small_parse :: "string \<Rightarrow> jsval option" where
  "small_parse s =
     (if s = text_ipqs then Some (cache_entry ''2.2.2.2'' (JNum 12) ''IPQS'')
      else if s = text_default then Some (cache_entry ''2.2.2.2'' (JNum 50) ''Default'')
      else if s = text_snapshot then Some (snapshot (JStr ''1.1.1.1'') (JStr ''2.2.2.2'') JNull)
      else if s = text_v6_as_v4 then Some (JObj [(''ip'', JStr ''1.2.3.4'')])
      else if s = text_info
        then Some (JObj [(''isResidential'', JBool False), (''isBroadcast'', JBool True)])
      else if s = text_cache_odd then Some (cache_entry ''2.2.2.2'' odd_value ''ProxyCheck'')
      else if s = text_proxy_odd
        then Some (JObj [(''2.2.2.2'', JObj [(''risk'', odd_value)])])
      else if s = text_ipqs_fail
        then Some (JObj [(''success'', JBool False), (''message'', odd_value)])
      else if s = text_ipqs_inf
        then Some (JObj [(''success'', JBool True), (''fraud_score'', JInfinity)])
      else if s = text_cache_null then Some (cache_entry ''2.2.2.2'' JNull ''IPQS'')
      else None)"

definition small_stringify :: "jsval \<Rightarrow> string" where
  "small_stringify v =
     (if v = cache_entry ''2.2.2.2'' (JNum 12) ''IPQS'' then text_ipqs
      else if v = cache_entry ''2.2.2.2'' (JNum 50) ''Default'' then text_default
      else if v = snapshot (JStr ''1.1.1.1'') (JStr ''2.2.2.2'') JNull then text_snapshot
      else if v = JObj [(''ip'', JStr ''1.2.3.4'')] then text_v6_as_v4
      else if v = JObj [(''isResidential'', JBool False), (''isBroadcast'', JBool True)]
        then text_info
      else if v = cache_entry ''2.2.2.2'' odd_value ''ProxyCheck'' then text_cache_odd
      else if v = cache_entry ''2.2.2.2'' JInfinity ''IPQS'' then text_cache_null
      else if v = cache_entry ''2.2.2.2'' JNull ''IPQS'' then text_cache_null
      else ''null'')"

definition small_codec :: codec where
  "small_codec = \<lparr>JSON_parse = small_parse, JSON_stringify = small_stringify\<rparr>"

text \<open>A host with an empty store and no effects yet, and a network where every request fails.\<close>

definition host_init :: host where
  "host_init = \<lparr>store = Map.empty, trace = []\<rparr>"

definition net_down :: "string \<Rightarrow> string option" where
  "net_down url = None"

text \<open>A network where the v6 endpoint answers with a v4 address and nothing else answers.\<close>

definition net_v6_as_v4 :: "string \<Rightarrow> string option" where
  "net_v6_as_v4 url = (if url = url_outboundIPv6 then Some text_v6_as_v4 else None)"

text \<open>A network where only the structured IP-type endpoint answers.\<close>

definition net_info :: "string \<Rightarrow> string option" where
  "net_info url = (if url = url_ipType then Some text_info else None)"

text \<open>A host whose risk cache holds an entry for 2.2.2.2.\<close>

definition host_cached :: host where
  "host_cached = \<lparr>store = [key_riskCache \<mapsto> text_ipqs], trace = []\<rparr>"


text \<open>A host whose risk cache holds an entry for 2.2.2.2 with a score that does not convert.\<close>

definition host_cached_odd :: host where
  "host_cached_odd = \<lparr>store = [key_riskCache \<mapsto> text_cache_odd], trace = []\<rparr>"


text \<open>
  Networks where only IPQS answers for 2.2.2.2 under the credential "key": without a
  score and with a message that does not convert, and with a score too large for a
  double.
\<close>

definition net_ipqs_fail :: "string \<Rightarrow> string option" where
  "net_ipqs_fail url = (if url = url_ipqs ''key'' ''2.2.2.2'' then Some text_ipqs_fail else None)"

definition net_ipqs_inf :: "string \<Rightarrow> string option" where
  "net_ipqs_inf url = (if url = url_ipqs ''key'' ''2.2.2.2'' then Some text_ipqs_inf else None)"


text \<open>
  Two recent-request logs, with the first matching request at the eighth and at the fifth
  place, a host with a persisted policy name, and geo records, for the examples.
\<close>

definition other_request :: request where
  "other_request = \<lparr>URL = ''https://www.example.com/'', policyName = Some ''DIRECT''\<rparr>"

definition recent_ten :: "request list" where
  "recent_ten =
     replicate 7 other_request @
     [\<lparr>URL = ''https://api-ipv4.ip.sb/geoip'', policyName = Some ''Proxy-HK''\<rparr>,
      \<lparr>URL = ''https://ipinfo.io/2.2.2.2/json'', policyName = Some ''Proxy-JP''\<rparr>]"

definition recent_five :: "request list" where
  "recent_five =
     replicate 4 other_request @
     [\<lparr>URL = ''https://IPINFO.io/2.2.2.2/json'', policyName = Some ''Proxy-HK''\<rparr>]"

definition host_policy :: host where
  "host_policy = \<lparr>store = [key_lastPolicy \<mapsto> ''Proxy-SG''], trace = []\<rparr>"

definition geo_us_acme :: geo where
  "geo_us_acme = \<lparr>country_code = Val ''US'', country_name = Val ''United States'',
                   city = Val ''Dallas'', region = Val ''Texas'', org = Val ''Acme Net''\<rparr>"

definition geo_us_acme6 :: geo where
  "geo_us_acme6 = \<lparr>country_code = Val ''US'', country_name = Val ''United States'',
                    city = Val ''Austin'', region = Val ''Texas'', org = Val ''Acme Net''\<rparr>"

definition geo_de_acme :: geo where
  "geo_de_acme = \<lparr>country_code = Val ''DE'', country_name = Val ''Germany'',
                   city = Val ''Berlin'', region = Undefined, org = Val ''Acme Net''\<rparr>"

section \<open>Properties of riskText\<close>

lemma riskText_above_100:
  "100 < sc \<Longrightarrow> riskText sc = \<lparr>rt_label = lbl_extreme, rt_color = ''#F44336''\<rparr>"
  by (simp add: riskText_def riskLevels_def)

lemma riskLevels_last_covers: "sc \<le> 100 \<Longrightarrow> find (\<lambda>l. sc \<le> max_l l) riskLevels \<noteq> None"
  by (simp add: riskLevels_def)

text \<open>
  Claim C10. riskText is total on numeric scores: a score above 100, which no level
  covers, gets the label and the colour of the last level (U+6975 U+5EA6 U+98A8 U+96AA
  " IP", "#F44336"); a score of at most 100 gets the label and the colour of the first
  level of CONFIG.riskLevels whose max is at least the score.
\<close>

theorem riskText_total:
  "(100 < sc \<longrightarrow> riskText sc = \<lparr>rt_label = lbl_extreme, rt_color = ''#F44336''\<rparr>) \<and>
   (sc \<le> 100 \<longrightarrow>
      (\<exists>i < length riskLevels.
          sc \<le> max_l (riskLevels ! i) \<and>
          (\<forall>j < i. \<not> sc \<le> max_l (riskLevels ! j)) \<and>
          riskText sc =
            \<lparr>rt_label = label (riskLevels ! i), rt_color = color (riskLevels ! i)\<rparr>))"
proof (intro conjI impI)
  assume "100 < sc"
  then show "riskText sc = \<lparr>rt_label = lbl_extreme, rt_color = ''#F44336''\<rparr>"
    by (rule riskText_above_100)
next
  assume "sc \<le> 100"
  then obtain l where l: "find (\<lambda>l. sc \<le> max_l l) riskLevels = Some l"
    using riskLevels_last_covers by blast
  then obtain i where i: "i < length riskLevels" "sc \<le> max_l (riskLevels ! i)"
      "l = riskLevels ! i" "\<forall>j < i. \<not> sc \<le> max_l (riskLevels ! j)"
    unfolding find_Some_iff by blast
  have "riskText sc = \<lparr>rt_label = label l, rt_color = color l\<rparr>"
    using l by (simp add: riskText_def)
  with i show "\<exists>i < length riskLevels.
          sc \<le> max_l (riskLevels ! i) \<and>
          (\<forall>j < i. \<not> sc \<le> max_l (riskLevels ! j)) \<and>
          riskText sc =
            \<lparr>rt_label = label (riskLevels ! i), rt_color = color (riskLevels ! i)\<rparr>"
    by blast
qed

theorem riskText_total_witness:
  "(100::real) < 150 \<and> riskText 150 = \<lparr>rt_label = lbl_extreme, rt_color = ''#F44336''\<rparr> \<and>
   (12::real) \<le> 100 \<and>
   (\<exists>i < length riskLevels.
       (12::real) \<le> max_l (riskLevels ! i) \<and>
       (\<forall>j < i. \<not> 12 \<le> max_l (riskLevels ! j)) \<and>
       riskText 12 = \<lparr>rt_label = label (riskLevels ! i), rt_color = color (riskLevels ! i)\<rparr>)"
  using riskText_total [of 150] riskText_total [of 12] by simp

section \<open>Properties of the completion guard\<close>

lemma finished_absorbs: "finished st \<Longrightarrow> done_calls os st = st"
  by (induction os arbitrary: st) (simp_all add: done_call_def)

text \<open>
  Claim C9. Exactly one terminal result is emitted per run: whatever the sequence of
  calls to done (watchdog, acquisition failure, unchanged network, normal completion,
  in any order), the host's completion callback is invoked exactly once, with the
  argument of the first call; every later call is discarded by the guard.
\<close>

theorem done_exactly_once:
  "emitted (done_calls (o1 # os) completion_init) = [o1] \<and>
   finished (done_calls (o1 # os) completion_init)"
  by (simp add: finished_absorbs done_call_def completion_init_def)

section \<open>Properties of the host operations\<close>

lemma store_emit [simp]: "store (emit e h) = store h"
  by (simp add: emit_def)

lemma trace_emit [simp]: "trace (emit e h) = trace h @ [e]"
  by (simp add: emit_def)

lemma store_store_write [simp]: "store (store_write v k h) = (store h)(k \<mapsto> v)"
  by (simp add: store_write_def)

lemma trace_store_write [simp]: "trace (store_write v k h) = trace h @ [StoreWrite k v]"
  by (simp add: store_write_def)

section \<open>Properties of the risk resolver\<close>

lemma cache_lookup_hit:
  assumes "store h key_riskCache = Some cached" "cached \<noteq> []"
    "JSON_parse J cached = Some c" "get_prop c ''ip'' = JStr ip"
    "convertible (get_prop c ''score'')" "convertible (get_prop c ''source'')"
  shows "cache_lookup J ip h = Some \<lparr>score = get_prop c ''score'', source = get_prop c ''source''\<rparr>"
proof -
  have "c \<noteq> JUndefined" "c \<noteq> JNull" using assms(4) by auto
  then show ?thesis using assms by (simp add: cache_lookup_def store_read_def dot_prop_def)
qed

lemma cache_lookup_unconvertible:
  assumes "store h key_riskCache = Some cached" "JSON_parse J cached = Some c"
    "\<not> (convertible (get_prop c ''score'') \<and> convertible (get_prop c ''source''))"
  shows "cache_lookup J ip h = None"
  using assms by (auto simp: cache_lookup_def store_read_def split: sum.splits)

lemma json_image_entry:
  assumes "sc \<noteq> JUndefined" "json_image sc = sc"
  shows "json_image (cache_entry ip sc src) = cache_entry ip sc src"
  using assms by (simp add: cache_entry_def)

lemma cache_lookup_after_save:
  assumes "reads_back J (cache_entry ip sc src)" "sc \<noteq> JUndefined" "json_image sc = sc"
    "convertible sc"
  shows "cache_lookup J ip (store_write (JSON_stringify J (cache_entry ip sc src)) key_riskCache h)
     = Some \<lparr>score = sc, source = JStr src\<rparr>"
proof -
  have "JSON_parse J (JSON_stringify J (cache_entry ip sc src)) = Some (cache_entry ip sc src)"
    and "JSON_stringify J (cache_entry ip sc src) \<noteq> []"
    using assms(1) json_image_entry [OF assms(2,3)] by (simp_all add: reads_back_def)
  then show ?thesis
    using assms(4)
    by (simp add: cache_lookup_def store_read_def dot_prop_def) (simp add: cache_entry_def)
qed

lemma getRiskScore_hit:
  "cache_lookup J ip h = Some r \<Longrightarrow> getRiskScore J ipqsKey net ip h = (Inr r, h)"
  by (simp add: getRiskScore_def)

lemma saveAndReturn_Inr:
  assumes "saveAndReturn J ip sc src h = (Inr r, h1)"
  shows "convertible sc \<and> r = \<lparr>score = sc, source = JStr src\<rparr>
     \<and> h1 = store_write (JSON_stringify J (cache_entry ip sc src)) key_riskCache h"
  using assms by (auto simp: saveAndReturn_def Let_def split: if_splits)


lemma opt_prop_defined: "opt_prop v k \<noteq> JUndefined \<Longrightarrow> get_prop v k = opt_prop v k"
  by (simp add: opt_prop_def split: if_splits)

lemma opt_prop_defined2:
  "opt_prop (opt_prop v k) k' \<noteq> JUndefined \<Longrightarrow> get_prop (get_prop v k) k' = opt_prop (opt_prop v k) k'"
  by (simp add: opt_prop_def split: if_splits)

text \<open>The fallback always ends in saveAndReturn, with a score that is not undefined.\<close>

lemma risk_fallback_saves:
  "\<exists>sc src h'. sc \<noteq> JUndefined \<and> risk_fallback J net ip h = saveAndReturn J ip sc src h'"
proof (cases "opt_prop (opt_prop (json_body J net (url_proxyCheck ip)) ip) ''risk'' = JUndefined")
  case False
  then have "get_prop (get_prop (json_body J net (url_proxyCheck ip)) ip) ''risk'' \<noteq> JUndefined"
    using opt_prop_defined2 [OF False] by simp
  with False show ?thesis
    by (auto simp: risk_fallback_def httpJSON_def httpRaw_def)
next
  case True
  then show ?thesis
    by (cases "parseScamalyticsScore (raw_body net (url_scamalytics ip))")
       (auto simp: risk_fallback_def httpJSON_def httpRaw_def)
qed

text \<open>The three ways a miss goes on.\<close>

lemma getRiskScore_ipqs:
  assumes "cache_lookup J ip h = None" "ipqsKey \<noteq> []"
    and "truthy (opt_prop (json_body J net (url_ipqs ipqsKey ip)) ''success'')"
    and "opt_prop (json_body J net (url_ipqs ipqsKey ip)) ''fraud_score'' \<noteq> JUndefined"
  shows "getRiskScore J ipqsKey net ip h =
     saveAndReturn J ip (get_prop (json_body J net (url_ipqs ipqsKey ip)) ''fraud_score'') ''IPQS''
       (emit (HttpGet (url_ipqs ipqsKey ip) None) h)"
  using assms by (simp add: getRiskScore_def httpJSON_def)

lemma getRiskScore_log_throws:
  assumes "cache_lookup J ip h = None" "ipqsKey \<noteq> []"
    and "\<not> (truthy (opt_prop (json_body J net (url_ipqs ipqsKey ip)) ''success'')
      \<and> opt_prop (json_body J net (url_ipqs ipqsKey ip)) ''fraud_score'' \<noteq> JUndefined)"
    and "\<not> ipqs_log_ok (json_body J net (url_ipqs ipqsKey ip))"
  shows "getRiskScore J ipqsKey net ip h = (Inl TypeError, emit (HttpGet (url_ipqs ipqsKey ip) None) h)"
  using assms by (auto simp: getRiskScore_def httpJSON_def)

lemma getRiskScore_falls_back:
  assumes "cache_lookup J ip h = None"
    and "ipqsKey = [] \<or>
         (\<not> (truthy (opt_prop (json_body J net (url_ipqs ipqsKey ip)) ''success'')
             \<and> opt_prop (json_body J net (url_ipqs ipqsKey ip)) ''fraud_score'' \<noteq> JUndefined)
          \<and> ipqs_log_ok (json_body J net (url_ipqs ipqsKey ip)))"
  shows "getRiskScore J ipqsKey net ip h =
     risk_fallback J net ip (if ipqsKey = [] then h else emit (HttpGet (url_ipqs ipqsKey ip) None) h)"
  using assms by (auto simp: getRiskScore_def httpJSON_def)

lemma getRiskScore_miss_cases:
  assumes "cache_lookup J ip h = None"
  shows "(\<exists>sc src h'. sc \<noteq> JUndefined \<and> getRiskScore J ipqsKey net ip h = saveAndReturn J ip sc src h')
     \<or> (\<exists>h'. getRiskScore J ipqsKey net ip h = (Inl TypeError, h'))"
proof (cases "ipqsKey \<noteq> [] \<and> truthy (opt_prop (json_body J net (url_ipqs ipqsKey ip)) ''success'')
      \<and> opt_prop (json_body J net (url_ipqs ipqsKey ip)) ''fraud_score'' \<noteq> JUndefined")
  case True
  then have "get_prop (json_body J net (url_ipqs ipqsKey ip)) ''fraud_score'' \<noteq> JUndefined"
    using opt_prop_defined [of "json_body J net (url_ipqs ipqsKey ip)" "''fraud_score''"] by simp
  moreover have "getRiskScore J ipqsKey net ip h =
     saveAndReturn J ip (get_prop (json_body J net (url_ipqs ipqsKey ip)) ''fraud_score'') ''IPQS''
       (emit (HttpGet (url_ipqs ipqsKey ip) None) h)"
    using assms True by (simp add: getRiskScore_ipqs)
  ultimately show ?thesis by blast
next
  case False
  show ?thesis
  proof (cases "ipqsKey = [] \<or> ipqs_log_ok (json_body J net (url_ipqs ipqsKey ip))")
    case True
    with False have "getRiskScore J ipqsKey net ip h =
       risk_fallback J net ip (if ipqsKey = [] then h else emit (HttpGet (url_ipqs ipqsKey ip) None) h)"
      using assms by (intro getRiskScore_falls_back) auto
    then show ?thesis
      using risk_fallback_saves
        [of J net ip "if ipqsKey = [] then h else emit (HttpGet (url_ipqs ipqsKey ip) None) h"]
      by auto
  next
    case nolog: False
    with False assms have "getRiskScore J ipqsKey net ip h =
       (Inl TypeError, emit (HttpGet (url_ipqs ipqsKey ip) None) h)"
      by (intro getRiskScore_log_throws) auto
    then show ?thesis by blast
  qed
qed

text \<open>
  Claim C1, as amended. For every address, if the persisted risk-cache entry parses, its
  stored ip is the address, and its score and source convert to strings (as every
  primitive value does), getRiskScore returns the cached score and source at once,
  with no provider request and no write to the cache (the host is unchanged).
  Consequently a second call for the same address, on the host a first call left when
  it returned a result, returns that same result and leaves the host as it is, without
  a provider request, whatever the credential and the network then are, provided the
  first call was itself a hit or its score is one that JSON writes back unchanged (no
  infinite number in it). The runtime is taken to read back what it wrote the way
  \<^verbatim>\<open>JSON.stringify\<close> and \<^verbatim>\<open>JSON.parse\<close> do.
\<close>

theorem getRiskScore_cached:
  "(store h key_riskCache = Some cached \<and> cached \<noteq> [] \<and> JSON_parse J cached = Some c
      \<and> get_prop c ''ip'' = JStr ip
      \<and> convertible (get_prop c ''score'') \<and> convertible (get_prop c ''source'')
     \<longrightarrow> getRiskScore J ipqsKey net ip h =
           (Inr \<lparr>score = get_prop c ''score'', source = get_prop c ''source''\<rparr>, h)) \<and>
   (getRiskScore J ipqsKey net ip h = (Inr r, h1)
      \<and> reads_back J (JObj [(''ip'', JStr ip), (''score'', score r), (''source'', source r)])
      \<and> (cache_lookup J ip h = Some r \<or> json_image (score r) = score r)
     \<longrightarrow> getRiskScore J ipqsKey' net' ip h1 = (Inr r, h1))"
proof (intro conjI impI)
  assume "store h key_riskCache = Some cached \<and> cached \<noteq> [] \<and> JSON_parse J cached = Some c
      \<and> get_prop c ''ip'' = JStr ip
      \<and> convertible (get_prop c ''score'') \<and> convertible (get_prop c ''source'')"
  then show "getRiskScore J ipqsKey net ip h =
           (Inr \<lparr>score = get_prop c ''score'', source = get_prop c ''source''\<rparr>, h)"
    by (simp add: getRiskScore_hit cache_lookup_hit)
next
  assume a: "getRiskScore J ipqsKey net ip h = (Inr r, h1)
      \<and> reads_back J (JObj [(''ip'', JStr ip), (''score'', score r), (''source'', source r)])
      \<and> (cache_lookup J ip h = Some r \<or> json_image (score r) = score r)"
  show "getRiskScore J ipqsKey' net' ip h1 = (Inr r, h1)"
  proof (cases "cache_lookup J ip h")
    case (Some r')
    with a have "r = r'" "h1 = h" by (simp_all add: getRiskScore_def)
    with Some show ?thesis by (simp add: getRiskScore_hit)
  next
    case None
    with a have img: "json_image (score r) = score r" by simp
    from None a obtain sc src h' where s: "sc \<noteq> JUndefined"
        "getRiskScore J ipqsKey net ip h = saveAndReturn J ip sc src h'"
      using getRiskScore_miss_cases [OF None, of ipqsKey net] by auto
    with a have "saveAndReturn J ip sc src h' = (Inr r, h1)" by simp
    then have c: "convertible sc" and r: "r = \<lparr>score = sc, source = JStr src\<rparr>"
      and h1: "h1 = store_write (JSON_stringify J (cache_entry ip sc src)) key_riskCache h'"
      using saveAndReturn_Inr by blast+
    from a r have rb: "reads_back J (cache_entry ip sc src)" by (simp add: cache_entry_def)
    from img r have "json_image sc = sc" by simp
    with rb s(1) c have "cache_lookup J ip h1 = Some r"
      unfolding h1 r by (intro cache_lookup_after_save)
    then show ?thesis by (rule getRiskScore_hit)
  qed
qed


lemma small_texts_distinct:
  "text_default \<noteq> text_ipqs" "text_cache_odd \<noteq> text_ipqs" "text_cache_odd \<noteq> text_default"
  "text_cache_odd \<noteq> text_snapshot" "text_cache_odd \<noteq> text_v6_as_v4" "text_cache_odd \<noteq> text_info"
  "text_cache_null \<noteq> text_ipqs" "text_cache_null \<noteq> text_default"
  "text_cache_null \<noteq> text_snapshot" "text_cache_null \<noteq> text_v6_as_v4" "text_cache_null \<noteq> text_info"
  "text_cache_null \<noteq> text_cache_odd" "text_cache_null \<noteq> text_proxy_odd"
  "text_cache_null \<noteq> text_ipqs_fail" "text_cache_null \<noteq> text_ipqs_inf"
  by (simp_all add: text_default_def text_ipqs_def text_cache_odd_def text_snapshot_def
      text_v6_as_v4_def text_info_def text_cache_null_def text_proxy_odd_def text_ipqs_fail_def
      text_ipqs_inf_def)

lemma small_parse_cache_odd:
  "JSON_parse small_codec text_cache_odd = Some (cache_entry ''2.2.2.2'' odd_value ''ProxyCheck'')"
  by (simp add: small_codec_def small_parse_def small_texts_distinct)

lemma small_parse_cache_null:
  "JSON_parse small_codec text_cache_null = Some (cache_entry ''2.2.2.2'' JNull ''IPQS'')"
  by (simp add: small_codec_def small_parse_def small_texts_distinct)

lemma small_stringify_default:
  "JSON_stringify small_codec (cache_entry ''2.2.2.2'' (JNum 50) ''Default'') = text_default"
  by (simp add: small_codec_def small_stringify_def cache_entry_def)

lemma small_stringify_inf:
  "JSON_stringify small_codec (cache_entry ''2.2.2.2'' JInfinity ''IPQS'') = text_cache_null"
  by (simp add: small_codec_def small_stringify_def cache_entry_def snapshot_def odd_value_def)

lemma small_stringify_odd:
  "JSON_stringify small_codec (cache_entry ''2.2.2.2'' odd_value ''ProxyCheck'') = text_cache_odd"
  by (simp add: small_codec_def small_stringify_def cache_entry_def snapshot_def odd_value_def)

lemma net_down_fallback:
  "risk_fallback small_codec net_down ''2.2.2.2'' h =
     (Inr \<lparr>score = JNum 50, source = JStr ''Default''\<rparr>,
      store_write text_default key_riskCache
        (emit (HttpGet (url_scamalytics ''2.2.2.2'') None)
           (emit (HttpGet (url_proxyCheck ''2.2.2.2'') None) h)))"
  by (simp add: risk_fallback_def httpJSON_def httpRaw_def json_body_def raw_body_def net_down_def
      opt_prop_def parseScamalyticsScore_def saveAndReturn_def small_stringify_default)

text \<open>
  A cache entry that parses and whose ip is the address is not always returned: when
  its score does not convert to a string the log of the hit throws inside the \<^verbatim>\<open>try\<close>,
  and the call goes on as a miss, with two requests and a write. And a second call does
  not always return what the first did: a score of infinity is returned by the first
  call and cached as null.
\<close>

theorem getRiskScore_cached_counterexample:
  "store host_cached_odd key_riskCache = Some text_cache_odd \<and>
   JSON_parse small_codec text_cache_odd = Some (cache_entry ''2.2.2.2'' odd_value ''ProxyCheck'') \<and>
   get_prop (cache_entry ''2.2.2.2'' odd_value ''ProxyCheck'') ''ip'' = JStr ''2.2.2.2'' \<and>
   getRiskScore small_codec [] net_down ''2.2.2.2'' host_cached_odd =
     (Inr \<lparr>score = JNum 50, source = JStr ''Default''\<rparr>,
      \<lparr>store = [key_riskCache \<mapsto> text_default],
       trace = [HttpGet (url_proxyCheck ''2.2.2.2'') None, HttpGet (url_scamalytics ''2.2.2.2'') None,
                StoreWrite key_riskCache text_default]\<rparr>) \<and>
   getRiskScore small_codec ''key'' net_ipqs_inf ''2.2.2.2'' host_init =
     (Inr \<lparr>score = JInfinity, source = JStr ''IPQS''\<rparr>,
      \<lparr>store = [key_riskCache \<mapsto> text_cache_null],
       trace = [HttpGet (url_ipqs ''key'' ''2.2.2.2'') None,
                StoreWrite key_riskCache text_cache_null]\<rparr>) \<and>
   getRiskScore small_codec ''key'' net_ipqs_inf ''2.2.2.2''
       \<lparr>store = [key_riskCache \<mapsto> text_cache_null],
        trace = [HttpGet (url_ipqs ''key'' ''2.2.2.2'') None,
                 StoreWrite key_riskCache text_cache_null]\<rparr> =
     (Inr \<lparr>score = JNull, source = JStr ''IPQS''\<rparr>,
      \<lparr>store = [key_riskCache \<mapsto> text_cache_null],
       trace = [HttpGet (url_ipqs ''key'' ''2.2.2.2'') None,
                StoreWrite key_riskCache text_cache_null]\<rparr>)"
proof -
  have st: "store host_cached_odd key_riskCache = Some text_cache_odd"
    by (simp add: host_cached_odd_def)
  have ip: "get_prop (cache_entry ''2.2.2.2'' odd_value ''ProxyCheck'') ''ip'' = JStr ''2.2.2.2''"
    by (simp add: cache_entry_def)
  have "\<not> (convertible (get_prop (cache_entry ''2.2.2.2'' odd_value ''ProxyCheck'') ''score'')
      \<and> convertible (get_prop (cache_entry ''2.2.2.2'' odd_value ''ProxyCheck'') ''source''))"
    by (simp add: cache_entry_def odd_value_def)
  with st small_parse_cache_odd have "cache_lookup small_codec ''2.2.2.2'' host_cached_odd = None"
    by (rule cache_lookup_unconvertible)
  then have "getRiskScore small_codec [] net_down ''2.2.2.2'' host_cached_odd =
      risk_fallback small_codec net_down ''2.2.2.2'' host_cached_odd"
    by (simp add: getRiskScore_def)
  then have one: "getRiskScore small_codec [] net_down ''2.2.2.2'' host_cached_odd =
     (Inr \<lparr>score = JNum 50, source = JStr ''Default''\<rparr>,
      \<lparr>store = [key_riskCache \<mapsto> text_default],
       trace = [HttpGet (url_proxyCheck ''2.2.2.2'') None, HttpGet (url_scamalytics ''2.2.2.2'') None,
                StoreWrite key_riskCache text_default]\<rparr>)"
    by (simp add: net_down_fallback store_write_def emit_def host_cached_odd_def)
  have miss: "cache_lookup small_codec ''2.2.2.2'' host_init = None"
    by (simp add: cache_lookup_def store_read_def host_init_def)
  have body: "json_body small_codec net_ipqs_inf (url_ipqs ''key'' ''2.2.2.2'') =
      JObj [(''success'', JBool True), (''fraud_score'', JInfinity)]"
    by (simp add: json_body_def net_ipqs_inf_def small_codec_def small_parse_def
        text_ipqs_inf_def text_ipqs_def text_default_def text_snapshot_def text_v6_as_v4_def
        text_info_def text_cache_odd_def text_proxy_odd_def text_ipqs_fail_def)
  have "getRiskScore small_codec ''key'' net_ipqs_inf ''2.2.2.2'' host_init =
     saveAndReturn small_codec ''2.2.2.2''
       (get_prop (json_body small_codec net_ipqs_inf (url_ipqs ''key'' ''2.2.2.2'')) ''fraud_score'')
       ''IPQS'' (emit (HttpGet (url_ipqs ''key'' ''2.2.2.2'') None) host_init)"
    using miss by (intro getRiskScore_ipqs) (simp_all add: body opt_prop_def)
  then have two: "getRiskScore small_codec ''key'' net_ipqs_inf ''2.2.2.2'' host_init =
     (Inr \<lparr>score = JInfinity, source = JStr ''IPQS''\<rparr>,
      \<lparr>store = [key_riskCache \<mapsto> text_cache_null],
       trace = [HttpGet (url_ipqs ''key'' ''2.2.2.2'') None,
                StoreWrite key_riskCache text_cache_null]\<rparr>)"
    by (simp add: body saveAndReturn_def small_stringify_inf store_write_def emit_def host_init_def)
  have "cache_lookup small_codec ''2.2.2.2''
       \<lparr>store = [key_riskCache \<mapsto> text_cache_null],
        trace = [HttpGet (url_ipqs ''key'' ''2.2.2.2'') None,
                 StoreWrite key_riskCache text_cache_null]\<rparr> =
     Some \<lparr>score = JNull, source = JStr ''IPQS''\<rparr>"
    by (simp add: cache_lookup_def store_read_def small_parse_cache_null dot_prop_def)
       (simp add: cache_entry_def text_cache_null_def)
  then have three: "getRiskScore small_codec ''key'' net_ipqs_inf ''2.2.2.2''
       \<lparr>store = [key_riskCache \<mapsto> text_cache_null],
        trace = [HttpGet (url_ipqs ''key'' ''2.2.2.2'') None,
                 StoreWrite key_riskCache text_cache_null]\<rparr> =
     (Inr \<lparr>score = JNull, source = JStr ''IPQS''\<rparr>,
      \<lparr>store = [key_riskCache \<mapsto> text_cache_null],
       trace = [HttpGet (url_ipqs ''key'' ''2.2.2.2'') None,
                StoreWrite key_riskCache text_cache_null]\<rparr>)"
    by (rule getRiskScore_hit)
  from st small_parse_cache_odd ip one two three show ?thesis by blast
qed

theorem getRiskScore_cached_witness:
  "getRiskScore small_codec ''key'' net_down ''2.2.2.2'' host_cached =
     (Inr \<lparr>score = JNum 12, source = JStr ''IPQS''\<rparr>, host_cached) \<and>
   getRiskScore small_codec [] net_down ''2.2.2.2'' host_init =
     (Inr \<lparr>score = JNum 50, source = JStr ''Default''\<rparr>,
      \<lparr>store = [key_riskCache \<mapsto> text_default],
       trace = [HttpGet (url_proxyCheck ''2.2.2.2'') None, HttpGet (url_scamalytics ''2.2.2.2'') None,
                StoreWrite key_riskCache text_default]\<rparr>) \<and>
   getRiskScore small_codec ''key'' net_down ''2.2.2.2''
       \<lparr>store = [key_riskCache \<mapsto> text_default],
        trace = [HttpGet (url_proxyCheck ''2.2.2.2'') None, HttpGet (url_scamalytics ''2.2.2.2'') None,
                 StoreWrite key_riskCache text_default]\<rparr> =
     (Inr \<lparr>score = JNum 50, source = JStr ''Default''\<rparr>,
      \<lparr>store = [key_riskCache \<mapsto> text_default],
       trace = [HttpGet (url_proxyCheck ''2.2.2.2'') None, HttpGet (url_scamalytics ''2.2.2.2'') None,
                StoreWrite key_riskCache text_default]\<rparr>)"
proof -
  have hit: "store host_cached key_riskCache = Some text_ipqs \<and> text_ipqs \<noteq> []
      \<and> JSON_parse small_codec text_ipqs = Some (cache_entry ''2.2.2.2'' (JNum 12) ''IPQS'')
      \<and> get_prop (cache_entry ''2.2.2.2'' (JNum 12) ''IPQS'') ''ip'' = JStr ''2.2.2.2''
      \<and> convertible (get_prop (cache_entry ''2.2.2.2'' (JNum 12) ''IPQS'') ''score'')
      \<and> convertible (get_prop (cache_entry ''2.2.2.2'' (JNum 12) ''IPQS'') ''source'')"
    by (simp add: host_cached_def small_codec_def small_parse_def text_ipqs_def cache_entry_def)
  have miss: "cache_lookup small_codec ''2.2.2.2'' host_init = None"
    by (simp add: cache_lookup_def store_read_def host_init_def)
  then have first: "getRiskScore small_codec [] net_down ''2.2.2.2'' host_init =
     (Inr \<lparr>score = JNum 50, source = JStr ''Default''\<rparr>,
      \<lparr>store = [key_riskCache \<mapsto> text_default],
       trace = [HttpGet (url_proxyCheck ''2.2.2.2'') None, HttpGet (url_scamalytics ''2.2.2.2'') None,
                StoreWrite key_riskCache text_default]\<rparr>)"
    by (simp add: getRiskScore_def net_down_fallback store_write_def emit_def host_init_def)
  have rb: "reads_back small_codec
      (JObj [(''ip'', JStr ''2.2.2.2''),
             (''score'', score \<lparr>score = JNum 50, source = JStr ''Default''\<rparr>),
             (''source'', source \<lparr>score = JNum 50, source = JStr ''Default''\<rparr>)])"
    by (simp add: reads_back_def small_codec_def small_parse_def small_stringify_def
        text_default_def text_ipqs_def cache_entry_def)
  have img: "json_image (score \<lparr>score = JNum 50, source = JStr ''Default''\<rparr>)
      = score \<lparr>score = JNum 50, source = JStr ''Default''\<rparr>"
    by simp
  from hit
    getRiskScore_cached [where h = host_cached and cached = text_ipqs and J = small_codec
        and c = "cache_entry ''2.2.2.2'' (JNum 12) ''IPQS''" and ip = "''2.2.2.2''"
        and ipqsKey = "''key''" and net = net_down]
  have one: "getRiskScore small_codec ''key'' net_down ''2.2.2.2'' host_cached =
     (Inr \<lparr>score = JNum 12, source = JStr ''IPQS''\<rparr>, host_cached)"
    by (simp add: cache_entry_def)
  from first rb img
    getRiskScore_cached [where h = host_init and J = small_codec and ip = "''2.2.2.2''"
        and ipqsKey = "[]" and net = net_down
        and r = "\<lparr>score = JNum 50, source = JStr ''Default''\<rparr>"
        and ?h1.0 = "\<lparr>store = [key_riskCache \<mapsto> text_default],
           trace = [HttpGet (url_proxyCheck ''2.2.2.2'') None, HttpGet (url_scamalytics ''2.2.2.2'') None,
                    StoreWrite key_riskCache text_default]\<rparr>"
        and ipqsKey' = "''key''" and net' = net_down]
  have two: "getRiskScore small_codec ''key'' net_down ''2.2.2.2''
       \<lparr>store = [key_riskCache \<mapsto> text_default],
        trace = [HttpGet (url_proxyCheck ''2.2.2.2'') None, HttpGet (url_scamalytics ''2.2.2.2'') None,
                 StoreWrite key_riskCache text_default]\<rparr> =
     (Inr \<lparr>score = JNum 50, source = JStr ''Default''\<rparr>,
      \<lparr>store = [key_riskCache \<mapsto> text_default],
       trace = [HttpGet (url_proxyCheck ''2.2.2.2'') None, HttpGet (url_scamalytics ''2.2.2.2'') None,
                StoreWrite key_riskCache text_default]\<rparr>)"
    by blast
  from one first two show ?thesis by blast
qed


text \<open>
  The path of the default, which the code takes when no log on the way throws.
\<close>

lemma getRiskScore_default_path:
  assumes "cache_lookup J ip h = None"
    and "ipqsKey = [] \<or>
         (\<not> (truthy (opt_prop (json_body J net (url_ipqs ipqsKey ip)) ''success'')
             \<and> opt_prop (json_body J net (url_ipqs ipqsKey ip)) ''fraud_score'' \<noteq> JUndefined)
          \<and> ipqs_log_ok (json_body J net (url_ipqs ipqsKey ip)))"
    and "opt_prop (opt_prop (json_body J net (url_proxyCheck ip)) ip) ''risk'' = JUndefined"
    and "parseScamalyticsScore (raw_body net (url_scamalytics ip)) = None"
  shows "getRiskScore J ipqsKey net ip h =
     (Inr \<lparr>score = JNum 50, source = JStr ''Default''\<rparr>,
      store_write (JSON_stringify J (cache_entry ip (JNum 50) ''Default'')) key_riskCache
        (emit (HttpGet (url_scamalytics ip) None)
          (emit (HttpGet (url_proxyCheck ip) None)
            (if ipqsKey = [] then h else emit (HttpGet (url_ipqs ipqsKey ip) None) h))))"
  using assms(3,4)
  unfolding getRiskScore_falls_back [OF assms(1,2)]
  by (simp add: risk_fallback_def httpJSON_def httpRaw_def saveAndReturn_def)

text \<open>
  Claim C2, at an input where the code does not do what the claim says. The cache is
  empty, a credential is configured, IPQS answers without a score
  (\<^verbatim>\<open>{"success":false,"message":{"toString":0}}\<close>), and neither ProxyCheck nor
  Scamalytics answers. The claim gives score 50 with source "Default", persisted. The
  code throws a TypeError while it builds the log of the IPQS answer, before Tiers 2
  and 3 are requested and with nothing written.
\<close>

theorem getRiskScore_default_ipqs_log_throws:
  "cache_lookup small_codec ''2.2.2.2'' host_init = None \<and>
   \<not> truthy (opt_prop (json_body small_codec net_ipqs_fail (url_ipqs ''key'' ''2.2.2.2'')) ''success'') \<and>
   opt_prop (opt_prop (json_body small_codec net_ipqs_fail (url_proxyCheck ''2.2.2.2'')) ''2.2.2.2'')
     ''risk'' = JUndefined \<and>
   parseScamalyticsScore (raw_body net_ipqs_fail (url_scamalytics ''2.2.2.2'')) = None \<and>
   getRiskScore small_codec ''key'' net_ipqs_fail ''2.2.2.2'' host_init =
     (Inl TypeError,
      \<lparr>store = Map.empty, trace = [HttpGet (url_ipqs ''key'' ''2.2.2.2'') None]\<rparr>)"
proof -
  have miss: "cache_lookup small_codec ''2.2.2.2'' host_init = None"
    by (simp add: cache_lookup_def store_read_def host_init_def)
  have body: "json_body small_codec net_ipqs_fail (url_ipqs ''key'' ''2.2.2.2'') =
      JObj [(''success'', JBool False), (''message'', odd_value)]"
    by (simp add: json_body_def net_ipqs_fail_def small_codec_def small_parse_def
        text_ipqs_fail_def text_ipqs_def text_default_def text_snapshot_def text_v6_as_v4_def
        text_info_def text_cache_odd_def text_proxy_odd_def)
  have t1: "\<not> truthy (opt_prop (json_body small_codec net_ipqs_fail (url_ipqs ''key'' ''2.2.2.2'')) ''success'')"
    by (simp add: body opt_prop_def)
  have "json_body small_codec net_ipqs_fail (url_proxyCheck ''2.2.2.2'') = JNull"
    by (simp add: json_body_def net_ipqs_fail_def url_ipqs_def url_proxyCheck_def)
  then have t2: "opt_prop (opt_prop (json_body small_codec net_ipqs_fail (url_proxyCheck ''2.2.2.2''))
      ''2.2.2.2'') ''risk'' = JUndefined"
    by (simp add: opt_prop_def)
  have "raw_body net_ipqs_fail (url_scamalytics ''2.2.2.2'') = None"
    by (simp add: raw_body_def net_ipqs_fail_def url_ipqs_def url_scamalytics_def)
  then have t3: "parseScamalyticsScore (raw_body net_ipqs_fail (url_scamalytics ''2.2.2.2'')) = None"
    by (simp add: parseScamalyticsScore_def)
  have nolog: "\<not> ipqs_log_ok (json_body small_codec net_ipqs_fail (url_ipqs ''key'' ''2.2.2.2''))"
    by (simp add: body ipqs_log_ok_def odd_value_def)
  have "getRiskScore small_codec ''key'' net_ipqs_fail ''2.2.2.2'' host_init =
      (Inl TypeError, emit (HttpGet (url_ipqs ''key'' ''2.2.2.2'') None) host_init)"
    using miss _ _ nolog by (rule getRiskScore_log_throws) (simp_all add: t1)
  then have "getRiskScore small_codec ''key'' net_ipqs_fail ''2.2.2.2'' host_init =
     (Inl TypeError,
      \<lparr>store = Map.empty, trace = [HttpGet (url_ipqs ''key'' ''2.2.2.2'') None]\<rparr>)"
    by (simp add: emit_def host_init_def)
  with miss t1 t2 t3 show ?thesis by blast
qed














section \<open>Properties of IP acquisition\<close>

lemma fetchIPs_string:
  assumes "opt_prop (if v6TimedOut then JNull else json_body J net url_outboundIPv6) ''ip'' = JStr s"
  shows "fst (fetchIPs J net v6TimedOut h) =
     Inr \<lparr>inIP = or_null (opt_prop (opt_prop (json_body J net url_inboundIP) ''data'') ''addr''),
          outIP = or_null (opt_prop (json_body J net url_outboundIP) ''ip''),
          outIPv6 = (if CHR '':'' \<in> set s then JStr s else JNull),
          inRaw = json_body J net url_inboundIP,
          outRaw = json_body J net url_outboundIP,
          v6Raw = (if CHR '':'' \<in> set s
                   then (if v6TimedOut then JNull else json_body J net url_outboundIPv6) else JNull)\<rparr>"
  using assms by (cases "s = []") (auto simp: fetchIPs_def httpJSON_def includes_colon_def Let_def)


lemma fetchIPs_absent:
  assumes "\<not> truthy (opt_prop (if v6TimedOut then JNull else json_body J net url_outboundIPv6) ''ip'')"
  shows "\<exists>r. fst (fetchIPs J net v6TimedOut h) = Inr r \<and> outIPv6 r = JNull \<and> v6Raw r = JNull"
  using assms by (simp add: fetchIPs_def httpJSON_def Let_def)

text \<open>
  Claim C4. For every answer of the v6 provider whose address is a string: if the string
  has no colon (as "1.2.3.4"), fetchIPs reports outIPv6 as null and v6Raw as null, and
  never that string; outIPv6 is the address, and so not null, exactly when the string
  has a colon. With no address at all (none in the answer, or the timer won the race)
  outIPv6 and v6Raw are null as well.
\<close>

theorem fetchIPs_v6_guard:
  "(opt_prop (if v6TimedOut then JNull else json_body J net url_outboundIPv6) ''ip'' = JStr s
      \<longrightarrow> (\<exists>r. fst (fetchIPs J net v6TimedOut h) = Inr r
            \<and> (if CHR '':'' \<in> set s
                then outIPv6 r = JStr s
                     \<and> v6Raw r = (if v6TimedOut then JNull else json_body J net url_outboundIPv6)
                else outIPv6 r = JNull \<and> v6Raw r = JNull))) \<and>
   (\<not> truthy (opt_prop (if v6TimedOut then JNull else json_body J net url_outboundIPv6) ''ip'')
      \<longrightarrow> (\<exists>r. fst (fetchIPs J net v6TimedOut h) = Inr r \<and> outIPv6 r = JNull \<and> v6Raw r = JNull))"
proof (intro conjI impI)
  assume a: "opt_prop (if v6TimedOut then JNull else json_body J net url_outboundIPv6) ''ip'' = JStr s"
  show "\<exists>r. fst (fetchIPs J net v6TimedOut h) = Inr r
            \<and> (if CHR '':'' \<in> set s
                then outIPv6 r = JStr s
                     \<and> v6Raw r = (if v6TimedOut then JNull else json_body J net url_outboundIPv6)
                else outIPv6 r = JNull \<and> v6Raw r = JNull)"
    using fetchIPs_string [OF a] by simp
next
  assume "\<not> truthy (opt_prop (if v6TimedOut then JNull else json_body J net url_outboundIPv6) ''ip'')"
  then show "\<exists>r. fst (fetchIPs J net v6TimedOut h) = Inr r \<and> outIPv6 r = JNull \<and> v6Raw r = JNull"
    by (rule fetchIPs_absent)
qed

section \<open>Properties of change detection\<close>

lemma snapshot_fields:
  "get_prop (omit_undefined (snapshot a b c)) ''inIP'' = a"
  "get_prop (omit_undefined (snapshot a b c)) ''outIP'' = b"
  "get_prop (omit_undefined (snapshot a b c)) ''outIP6'' = c"
  by (simp_all add: snapshot_def)

lemma omit_undefined_snapshot_obj: "\<exists>kvs. omit_undefined (snapshot a b c) = JObj kvs"
  by (simp add: snapshot_def)

lemma last_data_after_write:
  assumes "roundtrips J v"
  shows "last_data J (store_write (JSON_stringify J v) key_lastEvent h) = omit_undefined v"
  using assms by (simp add: last_data_def store_read_def roundtrips_def)

lemma checkIPChange_after_write:
  assumes "is_primitive a" "is_primitive b" "is_primitive c" "roundtrips J (snapshot a b c)"
  shows "checkIPChange J True a b c (store_write (JSON_stringify J (snapshot a b c)) key_lastEvent h)
     = Inr (False, store_write (JSON_stringify J (snapshot a b c)) key_lastEvent h)"
proof -
  obtain kvs where kvs: "omit_undefined (snapshot a b c) = JObj kvs"
    using omit_undefined_snapshot_obj by blast
  have "dot_prop (omit_undefined (snapshot a b c)) ''inIP'' = Inr a"
    using snapshot_fields(1) [of a b c] unfolding kvs by (simp add: dot_prop_def)
  then show ?thesis
    using assms
    by (simp add: checkIPChange_def last_data_after_write snapshot_fields strict_eq_fresh_def)
qed

lemma checkIPChange_effect:
  assumes "checkIPChange J True a b c h = Inr (r, h')"
  shows "h' = (if r then store_write (JSON_stringify J (snapshot a b c)) key_lastEvent h else h)"
  using assms by (auto simp: checkIPChange_def Let_def split: sum.splits if_splits)

text \<open>
  Claim C5. In event mode, once checkIPChange has returned for a triple of addresses
  (each a string, null or undefined), a second call with the same triple on the host
  the first call left returns false and leaves the host as it is, writing nothing; this
  includes a v6 address absent both times. The first call wrote the snapshot exactly
  when it returned true, that is when it found a difference to the stored snapshot or
  found none stored. What the second call reads is what the first wrote: the runtime
  reads back the snapshot it wrote.
\<close>

theorem checkIPChange_reflexive:
  assumes "is_primitive a" "is_primitive b" "is_primitive c"
    and "roundtrips J (snapshot a b c)"
    and "checkIPChange J True a b c h = Inr (r1, h1)"
  shows "checkIPChange J True a b c h1 = Inr (False, h1) \<and>
         h1 = (if r1 then store_write (JSON_stringify J (snapshot a b c)) key_lastEvent h else h)"
proof -
  have eff: "h1 = (if r1 then store_write (JSON_stringify J (snapshot a b c)) key_lastEvent h else h)"
    using assms(5) by (rule checkIPChange_effect)
  show ?thesis
  proof (cases r1)
    case True
    with eff have "h1 = store_write (JSON_stringify J (snapshot a b c)) key_lastEvent h" by simp
    then show ?thesis
      using checkIPChange_after_write [OF assms(1-4), of h] eff by simp
  next
    case False
    with eff assms(5) show ?thesis by simp
  qed
qed

theorem checkIPChange_reflexive_witness:
  "checkIPChange small_codec True (JStr ''1.1.1.1'') (JStr ''2.2.2.2'') JNull host_init =
     Inr (True, \<lparr>store = [key_lastEvent \<mapsto> text_snapshot],
                 trace = [StoreWrite key_lastEvent text_snapshot]\<rparr>) \<and>
   checkIPChange small_codec True (JStr ''1.1.1.1'') (JStr ''2.2.2.2'') JNull
       \<lparr>store = [key_lastEvent \<mapsto> text_snapshot], trace = [StoreWrite key_lastEvent text_snapshot]\<rparr> =
     Inr (False, \<lparr>store = [key_lastEvent \<mapsto> text_snapshot],
                  trace = [StoreWrite key_lastEvent text_snapshot]\<rparr>)"
proof -
  have p: "is_primitive (JStr ''1.1.1.1'')" "is_primitive (JStr ''2.2.2.2'')" "is_primitive JNull"
    by (simp_all add: is_primitive_def)
  have rt: "roundtrips small_codec (snapshot (JStr ''1.1.1.1'') (JStr ''2.2.2.2'') JNull)"
    by (simp add: roundtrips_def small_codec_def small_parse_def small_stringify_def
        text_snapshot_def text_default_def text_ipqs_def cache_entry_def snapshot_def)
  have first: "checkIPChange small_codec True (JStr ''1.1.1.1'') (JStr ''2.2.2.2'') JNull host_init =
     Inr (True, \<lparr>store = [key_lastEvent \<mapsto> text_snapshot],
                 trace = [StoreWrite key_lastEvent text_snapshot]\<rparr>)"
    by (simp add: checkIPChange_def last_data_def store_read_def host_init_def dot_prop_def
        strict_eq_fresh_def store_write_def emit_def small_codec_def small_stringify_def
        cache_entry_def snapshot_def)
  from checkIPChange_reflexive [OF p rt first] first show ?thesis
    by blast
qed


theorem fetchIPs_v6_guard_witness:
  "opt_prop (json_body small_codec net_v6_as_v4 url_outboundIPv6) ''ip'' = JStr ''1.2.3.4'' \<and>
   (\<exists>r. fst (fetchIPs small_codec net_v6_as_v4 False host_init) = Inr r
       \<and> outIPv6 r = JNull \<and> v6Raw r = JNull) \<and>
   \<not> truthy (opt_prop JNull ''ip'') \<and>
   (\<exists>r. fst (fetchIPs small_codec net_v6_as_v4 True host_init) = Inr r
       \<and> outIPv6 r = JNull \<and> v6Raw r = JNull)"
proof -
  have a: "opt_prop (json_body small_codec net_v6_as_v4 url_outboundIPv6) ''ip'' = JStr ''1.2.3.4''"
    by (simp add: json_body_def net_v6_as_v4_def small_codec_def small_parse_def opt_prop_def
        text_v6_as_v4_def text_ipqs_def text_default_def text_snapshot_def)
  have b: "\<not> truthy (opt_prop JNull ''ip'')"
    by (simp add: opt_prop_def)
  show ?thesis
    using a b
      fetchIPs_v6_guard [of False small_codec net_v6_as_v4 "''1.2.3.4''" host_init]
      fetchIPs_v6_guard [of True small_codec net_v6_as_v4 "''1.2.3.4''" host_init]
    by simp
qed

section \<open>Properties of policy discovery\<close>

lemma getPolicy_first:
  assumes "search_recent res1 10 = Some p"
  shows "getPolicy res1 res2 h = (p, store_write p key_lastPolicy (emit RecentQuery h))"
  using assms by (simp add: getPolicy_def findPolicyInRecent_def)

lemma getPolicy_second:
  assumes "search_recent res1 10 = None" "search_recent res2 5 = Some p"
  shows "getPolicy res1 res2 h =
     (p, store_write p key_lastPolicy
           (emit RecentQuery (wait_ms policyRetryDelay (emit RecentQuery h))))"
  using assms by (simp add: getPolicy_def findPolicyInRecent_def)

lemma getPolicy_fallback:
  assumes "search_recent res1 10 = None" "search_recent res2 5 = None"
  shows "getPolicy res1 res2 h =
     ((case store h key_lastPolicy of
         Some lastPolicy \<Rightarrow> if lastPolicy \<noteq> [] then lastPolicy else ''Unknown''
       | None \<Rightarrow> ''Unknown''),
      emit RecentQuery (wait_ms policyRetryDelay (emit RecentQuery h)))"
  using assms
  by (simp add: getPolicy_def findPolicyInRecent_def store_read_def wait_ms_def split: option.splits)

lemma search_recent_Some:
  assumes "search_recent res limit = Some p"
  shows "\<exists>requests i. res = Some requests \<and> i < limit \<and> i < length requests
      \<and> policy_pattern (URL (requests ! i)) \<and> policyName (requests ! i) = Some p \<and> p \<noteq> []
      \<and> (\<forall>j < i. \<not> policy_pattern (URL (requests ! j)))"
proof -
  from assms obtain requests hit where r: "res = Some requests"
      and f: "find (\<lambda>i. policy_pattern (URL i)) (take limit requests) = Some hit"
      and p: "policyName hit = Some p" "p \<noteq> []"
    by (auto simp: search_recent_def split: option.splits if_splits)
  from f obtain i where i: "i < length (take limit requests)"
      "policy_pattern (URL (take limit requests ! i))" "hit = take limit requests ! i"
      "\<forall>j < i. \<not> policy_pattern (URL (take limit requests ! j))"
    unfolding find_Some_iff by blast
  from i(1) have il: "i < limit" "i < length requests" by simp_all
  then have "take limit requests ! i = requests ! i" by simp
  moreover have "\<forall>j < i. take limit requests ! j = requests ! j" using il by simp
  ultimately show ?thesis using r p i il by auto
qed

lemma search_recent_found:
  assumes "i < limit" "i < length requests" "policy_pattern (URL (requests ! i))"
    and "\<forall>j < i. \<not> policy_pattern (URL (requests ! j))"
    and "policyName (requests ! i) = Some p" "p \<noteq> []"
  shows "search_recent (Some requests) limit = Some p"
proof -
  have "find (\<lambda>r. policy_pattern (URL r)) (take limit requests) = Some (requests ! i)"
    unfolding find_Some_iff using assms(1-4) by (intro exI [of _ i]) simp
  then show ?thesis using assms(5,6) by (simp add: search_recent_def)
qed

lemma search_recent_iff:
  "search_recent res limit = Some p \<longleftrightarrow>
     (\<exists>requests i. res = Some requests \<and> i < limit \<and> i < length requests
        \<and> policy_pattern (URL (requests ! i)) \<and> policyName (requests ! i) = Some p \<and> p \<noteq> []
        \<and> (\<forall>j < i. \<not> policy_pattern (URL (requests ! j))))"
  using search_recent_Some search_recent_found by blast

lemma getPolicy_keeps_nonempty:
  assumes "store h key_lastPolicy \<noteq> Some []"
  shows "store (snd (getPolicy res1 res2 h)) key_lastPolicy \<noteq> Some []"
proof (cases "search_recent res1 10")
  case (Some p)
  then have "p \<noteq> []" by (auto dest: search_recent_Some)
  with Some show ?thesis by (simp add: getPolicy_first)
next
  case None
  show ?thesis
  proof (cases "search_recent res2 5")
    case (Some p)
    then have "p \<noteq> []" by (auto dest: search_recent_Some)
    with None Some show ?thesis by (simp add: getPolicy_second)
  next
    case n2: None
    with None assms show ?thesis by (simp add: getPolicy_fallback wait_ms_def)
  qed
qed

text \<open>
  Claim C7. getPolicy always returns a name. It is the policy found by the first search,
  of the newest 10 recent requests; otherwise, after a wait of the fixed delay, the
  policy found by a second search, of the newest 5; otherwise the persisted last-known
  name; and "Unknown" only when none is persisted (the store holds no name, or an empty
  one, which getPolicy itself never writes). A find in either search writes the name to
  the store; the two fallback paths write nothing. A search with a limit finds a name
  exactly when the log has a request within the limit whose URL matches the pattern
  and the newest such request has a policy name that is not empty; it finds that name.
\<close>

theorem getPolicy_tiers:
  "(search_recent res1 10 = Some p \<longrightarrow>
      getPolicy res1 res2 h = (p, store_write p key_lastPolicy (emit RecentQuery h))) \<and>
   (search_recent res1 10 = None \<and> search_recent res2 5 = Some p \<longrightarrow>
      getPolicy res1 res2 h =
        (p, store_write p key_lastPolicy
              (emit RecentQuery (wait_ms policyRetryDelay (emit RecentQuery h))))) \<and>
   (search_recent res1 10 = None \<and> search_recent res2 5 = None
      \<and> store h key_lastPolicy = Some lastPolicy \<and> lastPolicy \<noteq> [] \<longrightarrow>
      getPolicy res1 res2 h =
        (lastPolicy, h\<lparr>trace := trace h @ [RecentQuery, Wait 500, RecentQuery]\<rparr>)) \<and>
   (search_recent res1 10 = None \<and> search_recent res2 5 = None
      \<and> (store h key_lastPolicy = None \<or> store h key_lastPolicy = Some []) \<longrightarrow>
      getPolicy res1 res2 h =
        (''Unknown'', h\<lparr>trace := trace h @ [RecentQuery, Wait 500, RecentQuery]\<rparr>)) \<and>
   (store h key_lastPolicy \<noteq> Some [] \<longrightarrow>
      store (snd (getPolicy res1 res2 h)) key_lastPolicy \<noteq> Some []) \<and>
   (search_recent res limit = Some p \<longleftrightarrow>
      (\<exists>requests i. res = Some requests \<and> i < limit \<and> i < length requests
         \<and> policy_pattern (URL (requests ! i)) \<and> policyName (requests ! i) = Some p \<and> p \<noteq> []
         \<and> (\<forall>j < i. \<not> policy_pattern (URL (requests ! j)))))"
proof -
  have tr: "emit RecentQuery (wait_ms policyRetryDelay (emit RecentQuery h))
      = h\<lparr>trace := trace h @ [RecentQuery, Wait 500, RecentQuery]\<rparr>"
    by (simp add: emit_def wait_ms_def policyRetryDelay_def)
  have 1: "search_recent res1 10 = Some p \<longrightarrow>
      getPolicy res1 res2 h = (p, store_write p key_lastPolicy (emit RecentQuery h))"
    by (simp add: getPolicy_first)
  have 2: "search_recent res1 10 = None \<and> search_recent res2 5 = Some p \<longrightarrow>
      getPolicy res1 res2 h =
        (p, store_write p key_lastPolicy
              (emit RecentQuery (wait_ms policyRetryDelay (emit RecentQuery h))))"
    by (simp add: getPolicy_second)
  have 3: "search_recent res1 10 = None \<and> search_recent res2 5 = None
      \<and> store h key_lastPolicy = Some lastPolicy \<and> lastPolicy \<noteq> [] \<longrightarrow>
      getPolicy res1 res2 h =
        (lastPolicy, h\<lparr>trace := trace h @ [RecentQuery, Wait 500, RecentQuery]\<rparr>)"
    by (simp add: getPolicy_fallback tr)
  have 4: "search_recent res1 10 = None \<and> search_recent res2 5 = None
      \<and> (store h key_lastPolicy = None \<or> store h key_lastPolicy = Some []) \<longrightarrow>
      getPolicy res1 res2 h =
        (''Unknown'', h\<lparr>trace := trace h @ [RecentQuery, Wait 500, RecentQuery]\<rparr>)"
    by (auto simp: getPolicy_fallback tr)
  have 5: "store h key_lastPolicy \<noteq> Some [] \<longrightarrow>
      store (snd (getPolicy res1 res2 h)) key_lastPolicy \<noteq> Some []"
    using getPolicy_keeps_nonempty by blast
  have 6: "search_recent res limit = Some p \<longleftrightarrow>
      (\<exists>requests i. res = Some requests \<and> i < limit \<and> i < length requests
         \<and> policy_pattern (URL (requests ! i)) \<and> policyName (requests ! i) = Some p \<and> p \<noteq> []
         \<and> (\<forall>j < i. \<not> policy_pattern (URL (requests ! j))))"
    by (rule search_recent_iff)
  from 1 2 3 4 5 6 show ?thesis by blast
qed

theorem getPolicy_tiers_witness:
  "getPolicy (Some recent_ten) None host_init =
     (''Proxy-HK'', \<lparr>store = [key_lastPolicy \<mapsto> ''Proxy-HK''],
                     trace = [RecentQuery, StoreWrite key_lastPolicy ''Proxy-HK'']\<rparr>) \<and>
   getPolicy (Some []) (Some recent_five) host_init =
     (''Proxy-HK'', \<lparr>store = [key_lastPolicy \<mapsto> ''Proxy-HK''],
                     trace = [RecentQuery, Wait 500, RecentQuery,
                              StoreWrite key_lastPolicy ''Proxy-HK'']\<rparr>) \<and>
   getPolicy None (Some recent_ten) host_policy =
     (''Proxy-SG'', \<lparr>store = [key_lastPolicy \<mapsto> ''Proxy-SG''],
                     trace = [RecentQuery, Wait 500, RecentQuery]\<rparr>) \<and>
   getPolicy None (Some []) host_init =
     (''Unknown'', \<lparr>store = Map.empty, trace = [RecentQuery, Wait 500, RecentQuery]\<rparr>)"
proof -
  have len: "length recent_ten = 9" "length recent_five = 5"
    by (simp_all add: recent_ten_def recent_five_def)
  have other: "\<not> policy_pattern (URL other_request)"
    by code_simp
  have ten: "policy_pattern (URL (recent_ten ! 7))" "policyName (recent_ten ! 7) = Some ''Proxy-HK''"
    by code_simp+
  have ten_before: "\<forall>j < 7. \<not> policy_pattern (URL (recent_ten ! j))"
    using other by (auto simp: recent_ten_def nth_append)
  have five: "policy_pattern (URL (recent_five ! 4))" "policyName (recent_five ! 4) = Some ''Proxy-HK''"
    by code_simp+
  have five_before: "\<forall>j < 4. \<not> policy_pattern (URL (recent_five ! j))"
    using other by (auto simp: recent_five_def nth_append)
  have s10: "search_recent (Some recent_ten) 10 = Some ''Proxy-HK''"
    using getPolicy_tiers [where res = "Some recent_ten" and limit = 10 and p = "''Proxy-HK''"] ten ten_before len
    by (auto intro!: exI [of _ 7])
  have s5: "search_recent (Some recent_five) 5 = Some ''Proxy-HK''"
    using getPolicy_tiers [where res = "Some recent_five" and limit = 5 and p = "''Proxy-HK''"] five five_before len
    by (auto intro!: exI [of _ 4])
  have n5: "search_recent (Some recent_ten) 5 = None"
    by code_simp
  have e: "search_recent (Some []) 10 = None" "search_recent (Some []) 5 = None"
    "search_recent None 10 = None"
    by (simp_all add: search_recent_def)
  have st: "store host_policy key_lastPolicy = Some ''Proxy-SG''" "store host_init key_lastPolicy = None"
    by (simp_all add: host_policy_def host_init_def)
  show ?thesis
    using s10 s5 n5 e st
      getPolicy_tiers [of "Some recent_ten" "''Proxy-HK''" None host_init]
      getPolicy_tiers [of "Some []" "''Proxy-HK''" "Some recent_five" host_init]
      getPolicy_tiers [of None _ "Some recent_ten" host_policy "''Proxy-SG''"]
      getPolicy_tiers [of None _ "Some []" host_init]
    by (simp add: store_write_def emit_def wait_ms_def policyRetryDelay_def host_init_def
        host_policy_def)
qed

section \<open>Properties of the IP-type resolver\<close>

lemma get_prop_bool_truthy: "get_prop v ''isResidential'' = JBool b \<Longrightarrow> truthy v"
  by (cases v) (simp_all add: array_index_def is_digit_def split: if_splits)

lemma getIPType_tier1:
  assumes "truthy (json_body J net url_ipType)"
    and "get_prop (json_body J net url_ipType) ''isResidential'' \<noteq> JUndefined"
  shows "getIPType J net h =
     (\<lparr>ipType = (if truthy (get_prop (json_body J net url_ipType) ''isResidential'')
                  then txt_residential else txt_datacenter),
       ipSrc = (if truthy (get_prop (json_body J net url_ipType) ''isBroadcast'')
                 then txt_broadcast else txt_native)\<rparr>,
      emit (HttpGet url_ipType None) h)"
  using assms by (simp add: getIPType_def httpJSON_def)

lemma getIPType_tier2:
  assumes "\<not> (truthy (json_body J net url_ipType)
             \<and> get_prop (json_body J net url_ipType) ''isResidential'' \<noteq> JUndefined)"
  shows "getIPType J net h =
     ((case raw_body net url_ipTypeCard of
         Some s \<Rightarrow> \<lparr>ipType = (if looks_residential s then txt_residential else txt_datacenter),
                      ipSrc = (if looks_broadcast s then txt_broadcast else txt_native)\<rparr>
       | None \<Rightarrow> \<lparr>ipType = txt_unknown, ipSrc = txt_unknown\<rparr>),
      emit (HttpGet url_ipTypeCard None) (emit (HttpGet url_ipType None) h))"
  using assms by (auto simp: getIPType_def httpJSON_def httpRaw_def split: option.splits)

text \<open>
  Claim C8. getIPType takes Tier 1 as successful whenever the structured answer has an
  isResidential field with a boolean value, false included, and then classifies from
  that answer with the one request only. The request of Tier 2 is sent exactly when
  the field is absent. When the field is absent and the HTML request of Tier 2 returns
  nothing, the result is the sentinel U+672A U+77E5 for both parts.
\<close>

theorem getIPType_tiers:
  "(get_prop (json_body J net url_ipType) ''isResidential'' = JBool b \<longrightarrow>
      getIPType J net h =
        (\<lparr>ipType = (if b then txt_residential else txt_datacenter),
          ipSrc = (if truthy (get_prop (json_body J net url_ipType) ''isBroadcast'')
                    then txt_broadcast else txt_native)\<rparr>,
         emit (HttpGet url_ipType None) h)) \<and>
   (truthy (json_body J net url_ipType)
      \<and> get_prop (json_body J net url_ipType) ''isResidential'' \<noteq> JUndefined \<longrightarrow>
      snd (getIPType J net h) = emit (HttpGet url_ipType None) h) \<and>
   (\<not> (truthy (json_body J net url_ipType)
        \<and> get_prop (json_body J net url_ipType) ''isResidential'' \<noteq> JUndefined) \<longrightarrow>
      snd (getIPType J net h) = emit (HttpGet url_ipTypeCard None) (emit (HttpGet url_ipType None) h)) \<and>
   (\<not> (truthy (json_body J net url_ipType)
        \<and> get_prop (json_body J net url_ipType) ''isResidential'' \<noteq> JUndefined)
      \<and> raw_body net url_ipTypeCard = None \<longrightarrow>
      fst (getIPType J net h) = \<lparr>ipType = txt_unknown, ipSrc = txt_unknown\<rparr>)"
proof (intro conjI impI)
  assume a: "get_prop (json_body J net url_ipType) ''isResidential'' = JBool b"
  then have "truthy (json_body J net url_ipType)" by (rule get_prop_bool_truthy)
  then show "getIPType J net h =
        (\<lparr>ipType = (if b then txt_residential else txt_datacenter),
          ipSrc = (if truthy (get_prop (json_body J net url_ipType) ''isBroadcast'')
                    then txt_broadcast else txt_native)\<rparr>,
         emit (HttpGet url_ipType None) h)"
    using a by (simp add: getIPType_tier1)
next
  assume "truthy (json_body J net url_ipType)
      \<and> get_prop (json_body J net url_ipType) ''isResidential'' \<noteq> JUndefined"
  then show "snd (getIPType J net h) = emit (HttpGet url_ipType None) h"
    by (simp add: getIPType_tier1)
next
  assume "\<not> (truthy (json_body J net url_ipType)
        \<and> get_prop (json_body J net url_ipType) ''isResidential'' \<noteq> JUndefined)"
  from getIPType_tier2 [OF this, of h]
  show "snd (getIPType J net h) = emit (HttpGet url_ipTypeCard None) (emit (HttpGet url_ipType None) h)"
    by simp
next
  assume a: "\<not> (truthy (json_body J net url_ipType)
        \<and> get_prop (json_body J net url_ipType) ''isResidential'' \<noteq> JUndefined)
      \<and> raw_body net url_ipTypeCard = None"
  then have "\<not> (truthy (json_body J net url_ipType)
        \<and> get_prop (json_body J net url_ipType) ''isResidential'' \<noteq> JUndefined)" by blast
  from getIPType_tier2 [OF this, of h] a
  show "fst (getIPType J net h) = \<lparr>ipType = txt_unknown, ipSrc = txt_unknown\<rparr>"
    by simp
qed

theorem getIPType_tiers_witness:
  "getIPType small_codec net_info host_init =
     (\<lparr>ipType = txt_datacenter, ipSrc = txt_broadcast\<rparr>,
      \<lparr>store = Map.empty, trace = [HttpGet url_ipType None]\<rparr>) \<and>
   getIPType small_codec net_down host_init =
     (\<lparr>ipType = txt_unknown, ipSrc = txt_unknown\<rparr>,
      \<lparr>store = Map.empty, trace = [HttpGet url_ipType None, HttpGet url_ipTypeCard None]\<rparr>)"
proof -
  have info: "json_body small_codec net_info url_ipType =
      JObj [(''isResidential'', JBool False), (''isBroadcast'', JBool True)]"
    by (simp add: json_body_def net_info_def small_codec_def small_parse_def text_info_def
        text_ipqs_def text_default_def text_snapshot_def text_v6_as_v4_def)
  have down: "json_body small_codec net_down url_ipType = JNull" "raw_body net_down url_ipTypeCard = None"
    by (simp_all add: json_body_def raw_body_def net_down_def)
  have "getIPType small_codec net_info host_init =
     (\<lparr>ipType = txt_datacenter, ipSrc = txt_broadcast\<rparr>, emit (HttpGet url_ipType None) host_init)"
    using getIPType_tiers [of small_codec net_info False host_init] info by simp
  moreover have "getIPType small_codec net_down host_init =
     (\<lparr>ipType = txt_unknown, ipSrc = txt_unknown\<rparr>,
      emit (HttpGet url_ipTypeCard None) (emit (HttpGet url_ipType None) host_init))"
    using getIPType_tiers [of small_codec net_down _ host_init] down
    by (simp add: prod_eq_iff)
  ultimately show ?thesis by (simp add: emit_def host_init_def)
qed

section \<open>Properties of the outbound section\<close>

lemma starts_with_region [simp]:
  "starts_with (p_region @ x) word_region"
  "starts_with (p_region4 @ x) word_region"
  "starts_with (p_region6 @ x) word_region"
  by (simp_all add: p_region_def p_region4_def p_region6_def word_region_def)

lemma starts_with_other [simp]:
  "\<not> starts_with (p_out @ x) word_region"
  "\<not> starts_with (p_out4 @ x) word_region"
  "\<not> starts_with (p_out6 @ x) word_region"
  "\<not> starts_with (p_carrier @ x) word_region"
  "\<not> starts_with (p_carrier4 @ x) word_region"
  "\<not> starts_with (p_carrier6 @ x) word_region"
  "\<not> starts_with [] word_region"
  by (simp_all add: p_out_def p_out4_def p_out6_def p_carrier_def p_carrier4_def p_carrier6_def
      word_region_def)

text \<open>
  Claim C6. Whenever a v6 address is present, the outbound section has a single
  location block if and only if the v4 and the v6 record agree exactly on the country
  code and on the carrier (org); it then has four lines, both addresses and one region
  and carrier. When either field differs it has two blocks, the lines of the first
  marked with superscript 4 and those of the second with superscript 6.
\<close>

theorem buildOutboundSection_blocks:
  assumes "truthy_s out6"
  shows
  "(location_blocks (buildOutboundSection out4 out6 outInfo ipv6Info isZh isMask) = 1
      \<longleftrightarrow> fld outInfo country_code = fld ipv6Info country_code \<and> fld outInfo org = fld ipv6Info org) \<and>
   (fld outInfo country_code = fld ipv6Info country_code \<and> fld outInfo org = fld ipv6Info org \<longrightarrow>
      buildOutboundSection out4 out6 outInfo ipv6Info isZh isMask =
        [p_out4 @ (if isMask then maskIP out4 else out4),
         p_out6 @ (if isMask then maskIP (or_text out6 []) else or_text out6 []),
         p_region @ formatGeo (fld outInfo country_code)
            [fld outInfo city, fld outInfo region,
             if isZh then fld outInfo country_name else fld outInfo country_code],
         p_carrier @ or_text (fld outInfo org) ''Unknown'']) \<and>
   (\<not> (fld outInfo country_code = fld ipv6Info country_code \<and> fld outInfo org = fld ipv6Info org) \<longrightarrow>
      buildOutboundSection out4 out6 outInfo ipv6Info isZh isMask =
        [p_out4 @ (if isMask then maskIP out4 else out4),
         p_region4 @ formatGeo (fld outInfo country_code)
            [fld outInfo city, fld outInfo region,
             if isZh then fld outInfo country_name else fld outInfo country_code],
         p_carrier4 @ or_text (fld outInfo org) ''Unknown'',
         [],
         p_out6 @ (if isMask then maskIP (or_text out6 []) else or_text out6 []),
         p_region6 @ formatGeo (fld ipv6Info country_code)
            [fld ipv6Info city, fld ipv6Info region,
             if isZh then fld ipv6Info country_name else fld ipv6Info country_code],
         p_carrier6 @ or_text (fld ipv6Info org) ''Unknown''] \<and>
      location_blocks (buildOutboundSection out4 out6 outInfo ipv6Info isZh isMask) = 2)"
proof (cases "fld outInfo country_code = fld ipv6Info country_code \<and> fld outInfo org = fld ipv6Info org")
  case True
  then have "sameLocation outInfo ipv6Info" by (simp add: sameLocation_def)
  with assms True show ?thesis
    by (simp add: buildOutboundSection_def location_blocks_def Let_def)
next
  case False
  then have "\<not> sameLocation outInfo ipv6Info" by (simp add: sameLocation_def)
  with assms False show ?thesis
    by (simp add: buildOutboundSection_def location_blocks_def Let_def)
qed

theorem buildOutboundSection_blocks_witness:
  "truthy_s (Val ''2001:db8::1'') \<and>
   location_blocks (buildOutboundSection ''2.2.2.2'' (Val ''2001:db8::1'')
       (Some geo_us_acme) (Some geo_us_acme6) False False) = 1 \<and>
   length (buildOutboundSection ''2.2.2.2'' (Val ''2001:db8::1'')
       (Some geo_us_acme) (Some geo_us_acme6) False False) = 4 \<and>
   location_blocks (buildOutboundSection ''2.2.2.2'' (Val ''2001:db8::1'')
       (Some geo_us_acme) (Some geo_de_acme) False False) = 2 \<and>
   length (buildOutboundSection ''2.2.2.2'' (Val ''2001:db8::1'')
       (Some geo_us_acme) (Some geo_de_acme) False False) = 7"
proof -
  have t: "truthy_s (Val ''2001:db8::1'')" by simp
  have same: "fld (Some geo_us_acme) country_code = fld (Some geo_us_acme6) country_code
      \<and> fld (Some geo_us_acme) org = fld (Some geo_us_acme6) org"
    by (simp add: fld_def geo_us_acme_def geo_us_acme6_def)
  have diff: "\<not> (fld (Some geo_us_acme) country_code = fld (Some geo_de_acme) country_code
      \<and> fld (Some geo_us_acme) org = fld (Some geo_de_acme) org)"
    by (simp add: fld_def geo_us_acme_def geo_de_acme_def)
  from buildOutboundSection_blocks [OF t, of "''2.2.2.2''" "Some geo_us_acme" "Some geo_us_acme6" False False]
    same
  have a: "location_blocks (buildOutboundSection ''2.2.2.2'' (Val ''2001:db8::1'')
       (Some geo_us_acme) (Some geo_us_acme6) False False) = 1
     \<and> length (buildOutboundSection ''2.2.2.2'' (Val ''2001:db8::1'')
       (Some geo_us_acme) (Some geo_us_acme6) False False) = 4"
    by (simp add: location_blocks_def)
  from buildOutboundSection_blocks [OF t, of "''2.2.2.2''" "Some geo_us_acme" "Some geo_de_acme" False False]
    diff
  have b: "location_blocks (buildOutboundSection ''2.2.2.2'' (Val ''2001:db8::1'')
       (Some geo_us_acme) (Some geo_de_acme) False False) = 2
     \<and> length (buildOutboundSection ''2.2.2.2'' (Val ''2001:db8::1'')
       (Some geo_us_acme) (Some geo_de_acme) False False) = 7"
    by (simp add: location_blocks_def)
  from t a b show ?thesis by blast
qed

end
